theory Spec2Isabelle
  imports Complex_Main "HOL-Library.Multiset" "HOL-Library.Product_Lexorder"
begin

section \<open>Values and exceptions\<close>

text \<open>
  The program is untyped Python working on decoded JSON. A value is therefore modelled as
  a JSON tree. A dict is an association list in insertion order, Python's \<open>None\<close> is
  \<open>JNull\<close>, Python's unbounded integers are \<open>int\<close>. A Python float is a finite
  number, an infinity or not-a-number; a finite float is held as a real number, so the
  rounding of float arithmetic is not represented. A string of JSON is held as the bytes
  of its UTF-8 encoding, a surrogate code point as the three bytes that the
  \<open>surrogatepass\<close> handler gives it.
\<close>

datatype pyfloat = Fin real | PInf | NInf | NaN

datatype json =
    JNull
  | JBool bool
  | JInt int
  | JFloat pyfloat
  | JStr string
  | JArr "json list"
  | JObj "(string \<times> json) list"

text \<open>
  An exception is its class together with the text \<open>str(e)\<close>. The classes below are the
  ones the modelled code paths can meet. \<open>is_RequestException\<close> is the subclass test that
  the handler \<open>except requests.exceptions.RequestException\<close> performs: in the
  \<open>requests\<close> library \<open>HTTPError\<close>, \<open>ConnectionError\<close>, \<open>Timeout\<close> and
  the library's own \<open>JSONDecodeError\<close> all derive from \<open>RequestException\<close>.
\<close>

datatype exn_class =
    RequestException
  | HTTPError
  | ConnectionError
  | Timeout
  | RequestsJSONDecodeError
  | ValueError
  | TypeError
  | AttributeError
  | KeyError
  | ZeroDivisionError
  | OverflowError
  | OSError
  | RuntimeError
  | UnicodeEncodeError

datatype exn = Exn exn_class string

fun exn_class_of :: "exn \<Rightarrow> exn_class" where
  "exn_class_of (Exn c m) = c"

fun str_exn :: "exn \<Rightarrow> string" where
  "str_exn (Exn c m) = m"

fun is_RequestException :: "exn_class \<Rightarrow> bool" where
  "is_RequestException RequestException = True"
| "is_RequestException HTTPError = True"
| "is_RequestException ConnectionError = True"
| "is_RequestException Timeout = True"
| "is_RequestException RequestsJSONDecodeError = True"
| "is_RequestException ValueError = False"
| "is_RequestException TypeError = False"
| "is_RequestException AttributeError = False"
| "is_RequestException KeyError = False"
| "is_RequestException ZeroDivisionError = False"
| "is_RequestException OverflowError = False"
| "is_RequestException OSError = False"
| "is_RequestException RuntimeError = False"
| "is_RequestException UnicodeEncodeError = False"

subsection \<open>Dict operations\<close>

text \<open>\<open>d.get(k)\<close>: the stored value, or \<open>None\<close> when the key is absent.\<close>

definition dict_get :: "(string \<times> json) list \<Rightarrow> string \<Rightarrow> json" where
  "dict_get d k = (case map_of d k of None \<Rightarrow> JNull | Some v \<Rightarrow> v)"

text \<open>\<open>d.get(k, default)\<close>.\<close>

definition dict_get_default :: "(string \<times> json) list \<Rightarrow> string \<Rightarrow> json \<Rightarrow> json" where
  "dict_get_default d k dflt = (case map_of d k of None \<Rightarrow> dflt | Some v \<Rightarrow> v)"

text \<open>\<open>d[k] = v\<close>: an existing key keeps its position, a new key goes to the end.\<close>

fun dict_set :: "(string \<times> json) list \<Rightarrow> string \<Rightarrow> json \<Rightarrow> (string \<times> json) list" where
  "dict_set [] k v = [(k, v)]"
| "dict_set (p # ps) k v = (if fst p = k then (k, v) # ps else p # dict_set ps k v)"

text \<open>\<open>d.setdefault(k, v)\<close>, as a statement: only an absent key is written.\<close>

definition dict_setdefault :: "(string \<times> json) list \<Rightarrow> string \<Rightarrow> json \<Rightarrow> (string \<times> json) list" where
  "dict_setdefault d k v = (case map_of d k of None \<Rightarrow> dict_set d k v | Some u \<Rightarrow> d)"

text \<open>Python truthiness (\<open>if not x\<close>) of a decoded JSON value.\<close>

fun truthy :: "json \<Rightarrow> bool" where
  "truthy JNull = False"
| "truthy (JBool b) = b"
| "truthy (JInt i) = (i \<noteq> 0)"
| "truthy (JFloat f) = (f \<noteq> Fin 0)"
| "truthy (JStr s) = (s \<noteq> [])"
| "truthy (JArr xs) = (xs \<noteq> [])"
| "truthy (JObj d) = (d \<noteq> [])"

fun is_dict :: "json \<Rightarrow> bool" where
  "is_dict (JObj d) = True"
| "is_dict v = False"

subsection \<open>Builtins: \<open>str(int)\<close>, \<open>repr(str)\<close>, \<open>int(str)\<close>\<close>

definition digit_char :: "nat \<Rightarrow> char" where
  "digit_char d = ''0123456789'' ! d"

function str_nat :: "nat \<Rightarrow> string" where
  "str_nat n = (if n < 10 then [digit_char n] else str_nat (n div 10) @ [digit_char (n mod 10)])"
  by pat_completeness auto
termination
  by (relation "measure (\<lambda>n. n)") auto

declare str_nat.simps [simp del]

definition str_int :: "int \<Rightarrow> string" where
  "str_int i = (if i < 0 then CHR ''-'' # str_nat (nat (- i)) else str_nat (nat i))"

text \<open>
  \<open>repr(s)\<close> of a string of code points below 256, as the messages of the interpreter
  print it: in apostrophes, or in double quotes when the string holds an apostrophe and no
  double quote; the quote and the backslash escaped, tab, line feed and carriage return as
  \<open>\t\<close>, \<open>\n\<close>, \<open>\r\<close>, every other unprintable character as \<open>\xhh\<close>.
\<close>

definition apostrophe :: char where
  "apostrophe = CHR 0x27"

definition double_quote :: char where
  "double_quote = CHR 0x22"

definition backslash :: char where
  "backslash = CHR 0x5C"

definition hex_char :: "nat \<Rightarrow> char" where
  "hex_char d = ''0123456789abcdef'' ! d"

definition repr_char :: "char \<Rightarrow> char \<Rightarrow> string" where
  "repr_char q c =
     (let n = (of_char c :: nat) in
      if c = q \<or> c = backslash then [backslash, c]
      else if n = 9 then [backslash, CHR ''t'']
      else if n = 10 then [backslash, CHR ''n'']
      else if n = 13 then [backslash, CHR ''r'']
      else if n < 32 \<or> n = 127 \<or> (128 \<le> n \<and> n \<le> 160) \<or> n = 173
        then [backslash, CHR ''x'', hex_char (n div 16), hex_char (n mod 16)]
      else [c])"

definition py_repr :: "string \<Rightarrow> string" where
  "py_repr s =
     (let q = (if apostrophe \<in> set s \<and> double_quote \<notin> set s then double_quote else apostrophe)
      in q # concat (map (repr_char q) s) @ [q])"

text \<open>
  \<open>int(s)\<close> on a string of code points below 256, which is what a header value is. White
  space around the number is dropped: tab to carriage return and the space, and of the
  characters above 126 the next-line and the no-break space. One sign is allowed, then
  decimal digits follow in which single underscores may separate digits. Anything else
  raises \<open>ValueError\<close> with the \<open>repr\<close> of the string, cut at 200 characters. A well-formed
  number of more than 4300 digits raises \<open>ValueError\<close> as well.
\<close>

definition is_space :: "char \<Rightarrow> bool" where
  "is_space c = (let n = (of_char c :: nat) in (9 \<le> n \<and> n \<le> 13) \<or> n = 32 \<or> n = 133 \<or> n = 160)"

definition is_digit :: "char \<Rightarrow> bool" where
  "is_digit c = (let n = (of_char c :: nat) in 48 \<le> n \<and> n \<le> 57)"

definition digit_val :: "char \<Rightarrow> nat" where
  "digit_val c = (of_char c :: nat) - 48"

definition strip :: "string \<Rightarrow> string" where
  "strip s = rev (dropWhile is_space (rev (dropWhile is_space s)))"

text \<open>
  \<open>digits_value acc prev s\<close> reads the digit string \<open>s\<close>; \<open>prev\<close> tells whether the
  character before was a digit, which is what an underscore needs on its left.
\<close>

fun digits_value :: "nat \<Rightarrow> bool \<Rightarrow> string \<Rightarrow> nat option" where
  "digits_value acc prev [] = (if prev then Some acc else None)"
| "digits_value acc prev (c # cs) =
     (if is_digit c then digits_value (10 * acc + digit_val c) True cs
      else if c = CHR ''_'' \<and> prev \<and> cs \<noteq> [] then digits_value acc False cs
      else None)"

definition int_error :: "string \<Rightarrow> exn" where
  "int_error s =
     Exn ValueError (''invalid literal for int() with base 10: '' @ take 200 (py_repr s))"

definition MAX_STR_DIGITS :: nat where
  "MAX_STR_DIGITS = 4300"

definition int_limit_error :: "nat \<Rightarrow> exn" where
  "int_limit_error n =
     Exn ValueError (''Exceeds the limit (4300 digits) for integer string conversion: value has ''
                     @ str_nat n @ '' digits; use sys.set_int_max_str_digits() to increase the limit'')"

text \<open>
  The text after the sign. The digits and underscores at its front are read first, and
  their number is checked; only then must the text be at its end.
\<close>

definition int_of_digits :: "string \<Rightarrow> string \<Rightarrow> exn + nat" where
  "int_of_digits s body =
     (let front = takeWhile (\<lambda>c. is_digit c \<or> c = CHR ''_'') body;
          rest = dropWhile (\<lambda>c. is_digit c \<or> c = CHR ''_'') body
      in case digits_value 0 False front of
           None \<Rightarrow> Inl (int_error s)
         | Some n \<Rightarrow>
             (if MAX_STR_DIGITS < length (filter is_digit front)
              then Inl (int_limit_error (length (filter is_digit front)))
              else if rest \<noteq> [] then Inl (int_error s)
              else Inr n))"

definition py_int :: "string \<Rightarrow> exn + int" where
  "py_int s =
     (case strip s of
        [] \<Rightarrow> Inl (int_error s)
      | c # cs \<Rightarrow>
          (if c = CHR ''-'' then
             (case int_of_digits s cs of Inl e \<Rightarrow> Inl e | Inr n \<Rightarrow> Inr (- int n))
           else if c = CHR ''+'' then
             (case int_of_digits s cs of Inl e \<Rightarrow> Inl e | Inr n \<Rightarrow> Inr (int n))
           else
             (case int_of_digits s (c # cs) of Inl e \<Rightarrow> Inl e | Inr n \<Rightarrow> Inr (int n))))"

subsection \<open>Float arithmetic\<close>

text \<open>
  The operations of floats that the program uses, on finite numbers as on real numbers
  and on infinities and not-a-number by the rules of IEEE 754.
\<close>

fun fneg :: "pyfloat \<Rightarrow> pyfloat" where
  "fneg (Fin a) = Fin (- a)"
| "fneg PInf = NInf"
| "fneg NInf = PInf"
| "fneg NaN = NaN"

fun fadd :: "pyfloat \<Rightarrow> pyfloat \<Rightarrow> pyfloat" where
  "fadd (Fin a) (Fin b) = Fin (a + b)"
| "fadd NaN y = NaN"
| "fadd x NaN = NaN"
| "fadd PInf NInf = NaN"
| "fadd NInf PInf = NaN"
| "fadd PInf y = PInf"
| "fadd x PInf = PInf"
| "fadd NInf y = NInf"
| "fadd x NInf = NInf"

definition fsub :: "pyfloat \<Rightarrow> pyfloat \<Rightarrow> pyfloat" where
  "fsub x y = fadd x (fneg y)"

text \<open>An infinity with the sign of \<open>s\<close>; not-a-number when \<open>s\<close> is zero.\<close>

definition signed_inf :: "real \<Rightarrow> pyfloat" where
  "signed_inf s = (if 0 < s then PInf else if s < 0 then NInf else NaN)"

fun fmul :: "pyfloat \<Rightarrow> pyfloat \<Rightarrow> pyfloat" where
  "fmul (Fin a) (Fin b) = Fin (a * b)"
| "fmul NaN y = NaN"
| "fmul x NaN = NaN"
| "fmul (Fin a) PInf = signed_inf a"
| "fmul (Fin a) NInf = signed_inf (- a)"
| "fmul PInf (Fin b) = signed_inf b"
| "fmul NInf (Fin b) = signed_inf (- b)"
| "fmul PInf PInf = PInf"
| "fmul NInf NInf = PInf"
| "fmul PInf NInf = NInf"
| "fmul NInf PInf = NInf"

text \<open>\<open>x / y\<close> for a divisor that is not zero; the program's division checks that first.\<close>

fun fdiv :: "pyfloat \<Rightarrow> pyfloat \<Rightarrow> pyfloat" where
  "fdiv (Fin a) (Fin b) = Fin (a / b)"
| "fdiv NaN y = NaN"
| "fdiv x NaN = NaN"
| "fdiv (Fin a) PInf = Fin 0"
| "fdiv (Fin a) NInf = Fin 0"
| "fdiv PInf (Fin b) = signed_inf b"
| "fdiv NInf (Fin b) = signed_inf (- b)"
| "fdiv PInf y = NaN"
| "fdiv NInf y = NaN"

text \<open>
  \<open>math.log1p\<close> and \<open>math.log\<close>: outside the domain they raise \<open>ValueError\<close>;
  not-a-number and the positive infinity pass through.
\<close>

fun log1p :: "pyfloat \<Rightarrow> exn + pyfloat" where
  "log1p (Fin a) = (if - 1 < a then Inr (Fin (ln (1 + a))) else Inl (Exn ValueError ''math domain error''))"
| "log1p PInf = Inr PInf"
| "log1p NInf = Inl (Exn ValueError ''math domain error'')"
| "log1p NaN = Inr NaN"

fun py_log :: "pyfloat \<Rightarrow> exn + pyfloat" where
  "py_log (Fin a) = (if 0 < a then Inr (Fin (ln a)) else Inl (Exn ValueError ''math domain error''))"
| "py_log PInf = Inr PInf"
| "py_log NInf = Inl (Exn ValueError ''math domain error'')"
| "py_log NaN = Inr NaN"

subsection \<open>\<open>float(x)\<close> and \<open>safe_num\<close>\<close>

text \<open>
  \<open>float\<close> of an integer is the nearest double, a tie going to the even one: beyond 53
  bits the integer is rounded to 53 significant bits. An integer that rounds to
  \<open>2 ^ 1024\<close> or more raises \<open>OverflowError\<close>.
\<close>

function bit_length :: "nat \<Rightarrow> nat" where
  "bit_length n = (if n = 0 then 0 else Suc (bit_length (n div 2)))"
  by pat_completeness auto
termination
  by (relation "measure (\<lambda>n. n)") auto

declare bit_length.simps [simp del]

definition round_to_double :: "nat \<Rightarrow> nat" where
  "round_to_double n =
     (let k = bit_length n in
      if k \<le> 53 then n
      else
        (let e = k - 53;
             q = n div 2 ^ e;
             r = n mod 2 ^ e;
             half = 2 ^ (e - 1);
             q' = (if half < r \<or> (r = half \<and> odd q) then q + 1 else q)
         in q' * 2 ^ e))"

definition type_error_float :: "string \<Rightarrow> exn" where
  "type_error_float tname =
     Exn TypeError (''float() argument must be a string or a real number, not ''
                    @ [apostrophe] @ tname @ [apostrophe])"

text \<open>
  Parsing of a string is the library's and is a parameter: \<open>strtod s\<close> is the float that
  \<open>float(s)\<close> returns, not-a-number and the infinities among them, or the \<open>ValueError\<close>
  it raises.
\<close>

fun py_float :: "(string \<Rightarrow> exn + pyfloat) \<Rightarrow> json \<Rightarrow> exn + pyfloat" where
  "py_float strtod JNull = Inl (type_error_float ''NoneType'')"
| "py_float strtod (JBool b) = Inr (Fin (if b then 1 else 0))"
| "py_float strtod (JInt i) =
     (let m = round_to_double (nat \<bar>i\<bar>) in
      if 2 ^ 1024 \<le> m then Inl (Exn OverflowError ''int too large to convert to float'')
      else Inr (Fin (if i < 0 then - real m else real m)))"
| "py_float strtod (JFloat f) = Inr f"
| "py_float strtod (JStr s) = strtod s"
| "py_float strtod (JArr xs) = Inl (type_error_float ''list'')"
| "py_float strtod (JObj d) = Inl (type_error_float ''dict'')"

text \<open>\<open>safe_num\<close>: \<open>None\<close> and every value \<open>float\<close> rejects become the default.\<close>

definition safe_num :: "(string \<Rightarrow> exn + pyfloat) \<Rightarrow> json \<Rightarrow> pyfloat \<Rightarrow> pyfloat" where
  "safe_num strtod x dflt =
     (if x = JNull then dflt
      else (case py_float strtod x of Inl e \<Rightarrow> dflt | Inr v \<Rightarrow> v))"

section \<open>Clock, rate limiter and network\<close>

text \<open>
  The world the fetcher acts on: the wall clock in seconds since the epoch, the module-global
  \<open>_last_request_ts\<close>, the GET requests issued so far (URL and query parameters, oldest
  first) and the durations handed to \<open>time.sleep\<close> (oldest first). The clock advances
  only by sleeping.
\<close>

type_synonym request = "string \<times> (string \<times> string) list"

record world =
  clock :: real
  last_request_ts :: real
  requests :: "request list"
  sleeps :: "real list"

text \<open>
  What the program reads of a response: \<open>r.status_code\<close>, \<open>r.reason\<close>, \<open>r.url\<close>,
  \<open>r.text\<close>, \<open>r.headers.get("Retry-After")\<close> and the outcome of \<open>r.json()\<close>.
\<close>

record response =
  status_code :: int
  reason :: string
  final_url :: string
  body_text :: string
  retry_after :: "string option"
  body_json :: "exn + json"

text \<open>
  The network is a parameter: \<open>net n req\<close> is the outcome of \<open>session.get\<close> for the
  request \<open>req\<close> when \<open>n\<close> requests were issued before it, either an exception or a
  response.
\<close>

type_synonym network = "nat \<Rightarrow> request \<Rightarrow> exn + response"

definition MIN_SECONDS_PER_REQUEST :: real where
  "MIN_SECONDS_PER_REQUEST = 105 / 100"

text \<open>\<open>time.sleep(d)\<close> for a duration known to be non-negative.\<close>

definition slept :: "real \<Rightarrow> world \<Rightarrow> world" where
  "slept d w = w\<lparr>clock := clock w + d, sleeps := sleeps w @ [d]\<rparr>"

text \<open>\<open>time.sleep(d)\<close> in general: a negative duration raises \<open>ValueError\<close>.\<close>

definition time_sleep :: "real \<Rightarrow> world \<Rightarrow> exn + world" where
  "time_sleep d w =
     (if d < 0 then Inl (Exn ValueError ''sleep length must be non-negative'')
      else Inr (slept d w))"

definition rate_limit_sleep :: "world \<Rightarrow> world" where
  "rate_limit_sleep w =
     (let now = clock w;
          elapsed = now - last_request_ts w;
          w1 = (if elapsed < MIN_SECONDS_PER_REQUEST
                then slept (MIN_SECONDS_PER_REQUEST - elapsed) w else w)
      in w1\<lparr>last_request_ts := clock w1\<rparr>)"

section \<open>HTTP helper\<close>

text \<open>
  \<open>r.raise_for_status()\<close> of the \<open>requests\<close> library: a status from 400 to 599 raises
  \<open>HTTPError\<close>, every other status passes.
\<close>

definition http_error_msg :: "response \<Rightarrow> string" where
  "http_error_msg r =
     str_int (status_code r)
     @ (if status_code r < 500 then '' Client Error: '' else '' Server Error: '')
     @ reason r @ '' for url: '' @ final_url r"

definition raise_for_status :: "response \<Rightarrow> exn option" where
  "raise_for_status r =
     (if 400 \<le> status_code r \<and> status_code r < 600
      then Some (Exn HTTPError (http_error_msg r)) else None)"

text \<open>How one pass through the body of the \<open>try\<close> block ends.\<close>

datatype attempt_result = Returned json | Continue | Raised exn

text \<open>
  The body of the \<open>try\<close> block for attempt number \<open>attempt\<close>. The result carries the
  values of \<open>last_status\<close> and \<open>last_text\<close> at the point where the body is left.
\<close>

definition get_json_attempt ::
  "network \<Rightarrow> string \<Rightarrow> (string \<times> string) list \<Rightarrow> bool \<Rightarrow> nat \<Rightarrow> int option \<Rightarrow> string option
     \<Rightarrow> world \<Rightarrow> attempt_result \<times> int option \<times> string option \<times> world" where
  "get_json_attempt net url params allow_404 attempt last_status last_text w =
     (let w1 = rate_limit_sleep w;
          w2 = w1\<lparr>requests := requests w1 @ [(url, params)]\<rparr>
      in case net (length (requests w1)) (url, params) of
           Inl e \<Rightarrow> (Raised e, last_status, last_text, w2)
         | Inr r \<Rightarrow>
             (let ls = Some (status_code r);
                  lt = Some (take 300 (body_text r))
              in if status_code r = 429 then
                   (case py_int (case retry_after r of None \<Rightarrow> ''60'' | Some s \<Rightarrow> s) of
                      Inl e \<Rightarrow> (Raised e, ls, lt, w2)
                    | Inr wait \<Rightarrow>
                        (case time_sleep (of_int wait) w2 of
                           Inl e \<Rightarrow> (Raised e, ls, lt, w2)
                         | Inr w3 \<Rightarrow> (Continue, ls, lt, w3)))
                 else if allow_404 \<and> status_code r = 404 then (Returned JNull, ls, lt, w2)
                 else if status_code r = 500 \<or> status_code r = 502
                         \<or> status_code r = 503 \<or> status_code r = 504 then
                   (Continue, ls, lt, slept (1 * real attempt) w2)
                 else
                   (case raise_for_status r of
                      Some e \<Rightarrow> (Raised e, ls, lt, w2)
                    | None \<Rightarrow>
                        (case body_json r of
                           Inl e \<Rightarrow> (Raised e, ls, lt, w2)
                         | Inr j \<Rightarrow> (Returned j, ls, lt, w2)))))"

text \<open>The message of the \<open>RuntimeError\<close> after the loop; \<open>None\<close> prints as \<open>None\<close>.\<close>

definition failed_after_retries :: "string \<Rightarrow> int option \<Rightarrow> string option \<Rightarrow> string" where
  "failed_after_retries url last_status last_text =
     ''Failed after retries: '' @ url
     @ '' (last_status='' @ (case last_status of None \<Rightarrow> ''None'' | Some s \<Rightarrow> str_int s)
     @ '', last_response='' @ (case last_text of None \<Rightarrow> ''None'' | Some t \<Rightarrow> t) @ '')''"

text \<open>
  The \<open>for\<close> loop with \<open>k\<close> attempts left. An exception of the body that is a
  \<open>RequestException\<close> is caught: its text becomes \<open>last_text\<close>, the loop sleeps and goes
  on. Any other exception leaves \<open>get_json\<close>.
\<close>

fun get_json_loop ::
  "network \<Rightarrow> string \<Rightarrow> (string \<times> string) list \<Rightarrow> bool \<Rightarrow> nat \<Rightarrow> nat \<Rightarrow> int option \<Rightarrow> string option
     \<Rightarrow> world \<Rightarrow> (exn + json) \<times> world" where
  "get_json_loop net url params allow_404 0 attempt last_status last_text w =
     (Inl (Exn RuntimeError (failed_after_retries url last_status last_text)), w)"
| "get_json_loop net url params allow_404 (Suc k) attempt last_status last_text w =
     (case get_json_attempt net url params allow_404 attempt last_status last_text w of
        (Returned j, ls, lt, w') \<Rightarrow> (Inr j, w')
      | (Continue, ls, lt, w') \<Rightarrow> get_json_loop net url params allow_404 k (Suc attempt) ls lt w'
      | (Raised e, ls, lt, w') \<Rightarrow>
          (if is_RequestException (exn_class_of e)
           then get_json_loop net url params allow_404 k (Suc attempt) ls (Some (str_exn e))
                  (slept (1 * real attempt) w')
           else (Inl e, w')))"

definition get_json ::
  "network \<Rightarrow> string \<Rightarrow> (string \<times> string) list \<Rightarrow> int \<Rightarrow> bool \<Rightarrow> world \<Rightarrow> (exn + json) \<times> world" where
  "get_json net url params retries allow_404 w =
     get_json_loop net url params allow_404 (nat retries) 1 None None w"

section \<open>JSON cache\<close>

text \<open>
  Formatting and parsing of timestamps belong to \<open>datetime\<close> and are parameters:
  \<open>isofmt t\<close> is \<open>datetime.isoformat()\<close> of the instant \<open>t\<close> in UTC, and
  \<open>fromiso s\<close> is \<open>datetime.fromisoformat(s).timestamp()\<close>, or \<open>None\<close> when that raises.
\<close>

definition utc_now_iso :: "(real \<Rightarrow> string) \<Rightarrow> real \<Rightarrow> string" where
  "utc_now_iso isofmt now = isofmt now"

text \<open>\<open>ts.replace("Z", "+00:00")\<close>.\<close>

definition replace_Z :: "string \<Rightarrow> string" where
  "replace_Z s = concat (map (\<lambda>c. if c = CHR ''Z'' then ''+00:00'' else [c]) s)"

text \<open>
  \<open>_parse_iso\<close>: every exception becomes \<open>0.0\<close>. A value that is not a string has no
  \<open>replace\<close>, which is an exception as well.
\<close>

fun parse_iso :: "(string \<Rightarrow> real option) \<Rightarrow> json \<Rightarrow> real" where
  "parse_iso fromiso (JStr s) = (case fromiso (replace_Z s) of None \<Rightarrow> 0 | Some t \<Rightarrow> t)"
| "parse_iso fromiso v = 0"

text \<open>
  What is at the cache path. \<open>Holds v\<close> is a file whose text \<open>json.load\<close> decodes to
  the value \<open>v\<close>, \<open>Unreadable\<close> a path that exists and cannot be opened or read,
  \<open>Malformed\<close> a file that \<open>json.load\<close> rejects.
\<close>

datatype file_state = Missing | Unreadable exn | Malformed exn | Holds json

definition fresh_root :: "(real \<Rightarrow> string) \<Rightarrow> real \<Rightarrow> json" where
  "fresh_root isofmt now =
     JObj [(''version'', JInt 1), (''updated_at'', JStr (utc_now_iso isofmt now)), (''releases'', JObj [])]"

text \<open>The body of the \<open>try\<close> block of \<open>load_cache\<close>.\<close>

definition load_cache_try :: "(real \<Rightarrow> string) \<Rightarrow> real \<Rightarrow> file_state \<Rightarrow> exn + json" where
  "load_cache_try isofmt now f =
     (case f of
        Missing \<Rightarrow> Inl (Exn OSError ''No such file or directory'')
      | Unreadable e \<Rightarrow> Inl e
      | Malformed e \<Rightarrow> Inl e
      | Holds data \<Rightarrow>
          (case data of
             JObj d \<Rightarrow>
               (let d1 = dict_setdefault d ''version'' (JInt 1);
                    d2 = dict_setdefault d1 ''updated_at'' (JStr (utc_now_iso isofmt now));
                    d3 = dict_setdefault d2 ''releases'' (JObj []);
                    d4 = (if \<not> is_dict (dict_get d3 ''releases'')
                          then dict_set d3 ''releases'' (JObj []) else d3)
                in Inr (JObj d4))
           | _ \<Rightarrow> Inl (Exn ValueError ''Cache root is not a dict'')))"

text \<open>
  \<open>load_cache\<close>. The handler \<open>except Exception\<close> takes every exception of the body.
  The result is a sum so that "does not raise" is a statement about the function.
\<close>

definition load_cache :: "(real \<Rightarrow> string) \<Rightarrow> real \<Rightarrow> file_state \<Rightarrow> exn + json" where
  "load_cache isofmt now f =
     (if f = Missing then Inr (fresh_root isofmt now)
      else (case load_cache_try isofmt now f of
              Inl e \<Rightarrow> Inr (fresh_root isofmt now)
            | Inr data \<Rightarrow> Inr data))"

text \<open>
  Writing the dump. The file is opened with \<open>encoding="utf-8"\<close> and the dump is made
  with \<open>ensure_ascii=False\<close>, so every string goes to the file as it is, and a string
  with a surrogate code point cannot be encoded: the write raises \<open>UnicodeEncodeError\<close>.
  In the bytes of a string a surrogate is the byte \<open>ED\<close> followed by a byte from
  \<open>A0\<close> to \<open>BF\<close>. An integer of more than 4300 digits cannot be printed: \<open>str\<close>
  raises \<open>ValueError\<close>. The dump goes through the value in the order of the text, so the
  first such string or integer decides the error.
\<close>

fun has_surrogate :: "string \<Rightarrow> bool" where
  "has_surrogate (a # b # cs) =
     (((of_char a :: nat) = 237 \<and> 160 \<le> (of_char b :: nat) \<and> (of_char b :: nat) \<le> 191)
      \<or> has_surrogate (b # cs))"
| "has_surrogate cs = False"

definition str_limit_error :: exn where
  "str_limit_error =
     Exn ValueError (''Exceeds the limit (4300 digits) for integer string conversion; ''
                     @ ''use sys.set_int_max_str_digits() to increase the limit'')"

text \<open>
  What the operating system and the codec decide is a parameter: whether
  \<open>open(path, "w")\<close> raises, whether \<open>os.replace\<close> raises, the text of the
  \<open>UnicodeEncodeError\<close> for a string that cannot be encoded, and what a dump that broke
  off leaves at the temporary path.
\<close>

record fs_env =
  open_error :: "string \<Rightarrow> exn option"
  replace_error :: "string \<Rightarrow> string \<Rightarrow> exn option"
  encode_error_text :: "string \<Rightarrow> string"
  partial_file :: "json \<Rightarrow> file_state"

fun dump_error :: "fs_env \<Rightarrow> json \<Rightarrow> exn option"
  and dump_error_list :: "fs_env \<Rightarrow> json list \<Rightarrow> exn option"
  and dump_error_items :: "fs_env \<Rightarrow> (string \<times> json) list \<Rightarrow> exn option" where
  "dump_error env (JStr s) =
     (if has_surrogate s then Some (Exn UnicodeEncodeError (encode_error_text env s)) else None)"
| "dump_error env (JInt i) =
     (if MAX_STR_DIGITS < length (str_nat (nat \<bar>i\<bar>)) then Some str_limit_error else None)"
| "dump_error env (JArr xs) = dump_error_list env xs"
| "dump_error env (JObj d) = dump_error_items env d"
| "dump_error env JNull = None"
| "dump_error env (JBool b) = None"
| "dump_error env (JFloat f) = None"
| "dump_error_list env [] = None"
| "dump_error_list env (x # xs) =
     (case dump_error env x of Some e \<Rightarrow> Some e | None \<Rightarrow> dump_error_list env xs)"
| "dump_error_items env [] = None"
| "dump_error_items env (p # ps) =
     (if has_surrogate (fst p) then Some (Exn UnicodeEncodeError (encode_error_text env (fst p)))
      else (case dump_error env (snd p) of
              Some e \<Rightarrow> Some e
            | None \<Rightarrow> dump_error_items env ps))"

text \<open>
  \<open>save_cache\<close> on a file system \<open>disk\<close> (path to file state). \<open>cache\<close> is a dict, as
  the signature says. The cache object is changed in place before anything is written, so
  the result is the outcome together with the cache as it is afterwards and the new file
  system. A dump that is written in full leaves a file that decodes to the value dumped:
  \<open>json.load\<close> reads back what \<open>json.dump\<close> wrote, not-a-number and the infinities
  included. A dump that breaks off leaves the target path as it was.
\<close>

definition save_cache ::
  "fs_env \<Rightarrow> (real \<Rightarrow> string) \<Rightarrow> real \<Rightarrow> (string \<Rightarrow> file_state) \<Rightarrow> string \<Rightarrow> (string \<times> json) list
     \<Rightarrow> (exn + unit) \<times> json \<times> (string \<Rightarrow> file_state)" where
  "save_cache env isofmt now disk cache_path cache =
     (let cache' = JObj (dict_set cache ''updated_at'' (JStr (utc_now_iso isofmt now)));
          tmp_path = cache_path @ ''.tmp''
      in case open_error env tmp_path of
           Some e \<Rightarrow> (Inl e, cache', disk)
         | None \<Rightarrow>
             (case dump_error env cache' of
                Some e \<Rightarrow> (Inl e, cache', disk(tmp_path := partial_file env cache'))
              | None \<Rightarrow>
                  (let disk1 = disk(tmp_path := Holds cache')
                   in case replace_error env tmp_path cache_path of
                        Some e \<Rightarrow> (Inl e, cache', disk1)
                      | None \<Rightarrow>
                          (Inr (), cache',
                           (disk1(tmp_path := Missing))(cache_path := disk1 tmp_path)))))"

text \<open>
  \<open>a == b\<close> of Python on two decoded values that share no object. Numbers compare by
  value across \<open>bool\<close>, \<open>int\<close> and \<open>float\<close>, and not-a-number equals nothing, itself
  included. Lists compare element by element, dicts key by key whatever the order.
\<close>

fun num_of :: "json \<Rightarrow> pyfloat option" where
  "num_of (JBool b) = Some (Fin (if b then 1 else 0))"
| "num_of (JInt i) = Some (Fin (of_int i))"
| "num_of (JFloat f) = Some f"
| "num_of v = None"

definition feq :: "pyfloat \<Rightarrow> pyfloat \<Rightarrow> bool" where
  "feq a b = (a \<noteq> NaN \<and> a = b)"

fun py_eq :: "json \<Rightarrow> json \<Rightarrow> bool"
  and py_eq_list :: "json list \<Rightarrow> json list \<Rightarrow> bool"
  and py_eq_items :: "(string \<times> json) list \<Rightarrow> (string \<times> json) list \<Rightarrow> bool" where
  "py_eq JNull y = (y = JNull)"
| "py_eq (JStr s) y = (y = JStr s)"
| "py_eq (JArr xs) y = (case y of JArr ys \<Rightarrow> py_eq_list xs ys | _ \<Rightarrow> False)"
| "py_eq (JObj d) y =
     (case y of JObj d' \<Rightarrow> length d = length d' \<and> py_eq_items d d' | _ \<Rightarrow> False)"
| "py_eq (JBool b) y =
     (case num_of y of None \<Rightarrow> False | Some g \<Rightarrow> feq (Fin (if b then 1 else 0)) g)"
| "py_eq (JInt i) y = (case num_of y of None \<Rightarrow> False | Some g \<Rightarrow> feq (Fin (of_int i)) g)"
| "py_eq (JFloat f) y = (case num_of y of None \<Rightarrow> False | Some g \<Rightarrow> feq f g)"
| "py_eq_list [] ys = (ys = [])"
| "py_eq_list (x # xs) ys =
     (case ys of [] \<Rightarrow> False | y # ys' \<Rightarrow> py_eq x y \<and> py_eq_list xs ys')"
| "py_eq_items [] d' = True"
| "py_eq_items (p # ps) d' =
     ((case map_of d' (fst p) of None \<Rightarrow> False | Some v' \<Rightarrow> py_eq (snd p) v')
      \<and> py_eq_items ps d')"

text \<open>\<open>cache["releases"].get(str(release_id), {})\<close>.\<close>

definition cache_get_release :: "json \<Rightarrow> int \<Rightarrow> exn + json" where
  "cache_get_release cache release_id =
     (case cache of
        JObj c \<Rightarrow>
          (case map_of c ''releases'' of
             None \<Rightarrow> Inl (Exn KeyError ''releases'')
           | Some (JObj rels) \<Rightarrow> Inr (dict_get_default rels (str_int release_id) (JObj []))
           | Some _ \<Rightarrow> Inl (Exn AttributeError ''object has no attribute get''))
      | _ \<Rightarrow> Inl (Exn TypeError ''object is not subscriptable''))"

text \<open>\<open>cache["releases"][str(release_id)] = entry\<close>, returning the changed cache.\<close>

definition cache_put_release :: "json \<Rightarrow> int \<Rightarrow> json \<Rightarrow> exn + json" where
  "cache_put_release cache release_id entry =
     (case cache of
        JObj c \<Rightarrow>
          (case map_of c ''releases'' of
             None \<Rightarrow> Inl (Exn KeyError ''releases'')
           | Some (JObj rels) \<Rightarrow>
               Inr (JObj (dict_set c ''releases'' (JObj (dict_set rels (str_int release_id) entry))))
           | Some _ \<Rightarrow> Inl (Exn TypeError ''object does not support item assignment''))
      | _ \<Rightarrow> Inl (Exn TypeError ''object is not subscriptable''))"

text \<open>
  \<open>is_fresh\<close>, with \<open>now\<close> the value of \<open>time.time()\<close>. An entry or a fragment that is
  not a dict has no \<open>get\<close>.
\<close>

definition is_fresh :: "(string \<Rightarrow> real option) \<Rightarrow> real \<Rightarrow> json \<Rightarrow> string \<Rightarrow> int \<Rightarrow> exn + bool" where
  "is_fresh fromiso now entry field ttl_seconds =
     (case entry of
        JObj e \<Rightarrow>
          (case dict_get_default e field (JObj []) of
             JObj meta \<Rightarrow>
               (let fetched_at = dict_get meta ''fetched_at''
                in if \<not> truthy fetched_at then Inr False
                   else (let age = now - parse_iso fromiso fetched_at
                         in Inr (age \<ge> 0 \<and> age < of_int ttl_seconds)))
           | _ \<Rightarrow> Inl (Exn AttributeError ''object has no attribute get''))
      | _ \<Rightarrow> Inl (Exn AttributeError ''object has no attribute get''))"

section \<open>Enrichment fetchers\<close>

definition BASE :: string where
  "BASE = ''https://api.discogs.com''"

definition CURRENCY :: string where
  "CURRENCY = ''USD''"

text \<open>\<open>d[k]\<close> on a value: a missing key raises \<open>KeyError\<close>.\<close>

definition subscript :: "json \<Rightarrow> string \<Rightarrow> exn + json" where
  "subscript v k =
     (case v of
        JObj d \<Rightarrow> (case map_of d k of None \<Rightarrow> Inl (Exn KeyError k) | Some x \<Rightarrow> Inr x)
      | _ \<Rightarrow> Inl (Exn TypeError ''object is not subscriptable''))"

text \<open>
  The block that turns the marketplace answer \<open>data\<close> into \<open>stats\<close>. It stands twice in
  the source, in \<open>fetch_marketplace_stats_cached\<close> and in the no-cache branch of
  \<open>main\<close>, with the same text.
\<close>

definition marketplace_stats_of :: "(string \<Rightarrow> exn + pyfloat) \<Rightarrow> json \<Rightarrow> exn + json" where
  "marketplace_stats_of strtod data =
     (if \<not> truthy data then
        Inr (JObj [(''num_for_sale'', JNull), (''blocked_from_sale'', JNull), (''lowest_price'', JNull)])
      else
        (case data of
           JObj d \<Rightarrow>
             (let lowest = dict_get d ''lowest_price'' in
              case (if lowest = JNull then Inr JNull
                    else (case lowest of
                            JObj l \<Rightarrow>
                              (case py_float strtod (dict_get l ''value'') of
                                 Inl e \<Rightarrow> Inl e
                               | Inr v \<Rightarrow> Inr (JFloat v))
                          | _ \<Rightarrow> Inl (Exn AttributeError ''object has no attribute get''))) of
                Inl e \<Rightarrow> Inl e
              | Inr lp \<Rightarrow>
                  Inr (JObj [(''num_for_sale'', dict_get d ''num_for_sale''),
                             (''blocked_from_sale'', dict_get d ''blocked_from_sale''),
                             (''lowest_price'', lp)]))
         | _ \<Rightarrow> Inl (Exn AttributeError ''object has no attribute get'')))"

text \<open>
  The fetchers return the data, the hit flag and the cache as they leave it, next to the
  world. \<open>entry\<close> is the dict stored in the cache (or a new empty one), changed in place
  and stored again, so the value written by \<open>cache_put_release\<close> is the whole of the change.
\<close>

definition fetch_marketplace_stats_cached ::
  "network \<Rightarrow> (real \<Rightarrow> string) \<Rightarrow> (string \<Rightarrow> real option) \<Rightarrow> (string \<Rightarrow> exn + pyfloat)
     \<Rightarrow> int \<Rightarrow> json \<Rightarrow> int \<Rightarrow> world \<Rightarrow> (exn + (json \<times> bool \<times> json)) \<times> world" where
  "fetch_marketplace_stats_cached net isofmt fromiso strtod release_id cache marketplace_ttl w =
     (case cache_get_release cache release_id of
        Inl e \<Rightarrow> (Inl e, w)
      | Inr entry \<Rightarrow>
          (case is_fresh fromiso (clock w) entry ''marketplace_stats'' marketplace_ttl of
             Inl e \<Rightarrow> (Inl e, w)
           | Inr True \<Rightarrow>
               (case subscript entry ''marketplace_stats'' of
                  Inl e \<Rightarrow> (Inl e, w)
                | Inr frag \<Rightarrow>
                    (case subscript frag ''data'' of
                       Inl e \<Rightarrow> (Inl e, w)
                     | Inr stored \<Rightarrow> (Inr (stored, True, cache), w)))
           | Inr False \<Rightarrow>
               (case get_json net (BASE @ ''/marketplace/stats/'' @ str_int release_id)
                       [(''curr_abbr'', CURRENCY)] 5 True w of
                  (Inl e, w') \<Rightarrow> (Inl e, w')
                | (Inr data, w') \<Rightarrow>
                    (case marketplace_stats_of strtod data of
                       Inl e \<Rightarrow> (Inl e, w')
                     | Inr stats \<Rightarrow>
                         (case entry of
                            JObj ed \<Rightarrow>
                              (let entry' = JObj (dict_set ed ''marketplace_stats''
                                     (JObj [(''fetched_at'', JStr (utc_now_iso isofmt (clock w'))),
                                            (''data'', stats)]))
                               in case cache_put_release cache release_id entry' of
                                    Inl e \<Rightarrow> (Inl e, w')
                                  | Inr cache' \<Rightarrow> (Inr (stats, False, cache'), w'))
                          | _ \<Rightarrow> (Inl (Exn TypeError ''object does not support item assignment''), w'))))))"

text \<open>
  The block that turns the release answer into \<open>details\<close>:
  \<open>comm = (data.get("community") or {})\<close>, then the two counters.
\<close>

definition release_details_of :: "json \<Rightarrow> exn + json" where
  "release_details_of data =
     (case data of
        JObj d \<Rightarrow>
          (let c = dict_get d ''community'';
               comm = (if truthy c then c else JObj [])
           in case comm of
                JObj cd \<Rightarrow>
                  Inr (JObj [(''want_count'', dict_get cd ''want''), (''have_count'', dict_get cd ''have'')])
              | _ \<Rightarrow> Inl (Exn AttributeError ''object has no attribute get''))
      | _ \<Rightarrow> Inl (Exn AttributeError ''object has no attribute get''))"

definition fetch_release_details_cached ::
  "network \<Rightarrow> (real \<Rightarrow> string) \<Rightarrow> (string \<Rightarrow> real option)
     \<Rightarrow> int \<Rightarrow> json \<Rightarrow> int \<Rightarrow> world \<Rightarrow> (exn + (json \<times> bool \<times> json)) \<times> world" where
  "fetch_release_details_cached net isofmt fromiso release_id cache release_details_ttl w =
     (case cache_get_release cache release_id of
        Inl e \<Rightarrow> (Inl e, w)
      | Inr entry \<Rightarrow>
          (case is_fresh fromiso (clock w) entry ''release_details'' release_details_ttl of
             Inl e \<Rightarrow> (Inl e, w)
           | Inr True \<Rightarrow>
               (case subscript entry ''release_details'' of
                  Inl e \<Rightarrow> (Inl e, w)
                | Inr frag \<Rightarrow>
                    (case subscript frag ''data'' of
                       Inl e \<Rightarrow> (Inl e, w)
                     | Inr stored \<Rightarrow> (Inr (stored, True, cache), w)))
           | Inr False \<Rightarrow>
               (case get_json net (BASE @ ''/releases/'' @ str_int release_id) [] 5 False w of
                  (Inl e, w') \<Rightarrow> (Inl e, w')
                | (Inr data, w') \<Rightarrow>
                    (case release_details_of data of
                       Inl e \<Rightarrow> (Inl e, w')
                     | Inr details \<Rightarrow>
                         (case entry of
                            JObj ed \<Rightarrow>
                              (let entry' = JObj (dict_set ed ''release_details''
                                     (JObj [(''fetched_at'', JStr (utc_now_iso isofmt (clock w'))),
                                            (''data'', details)]))
                               in case cache_put_release cache release_id entry' of
                                    Inl e \<Rightarrow> (Inl e, w')
                                  | Inr cache' \<Rightarrow> (Inr (details, False, cache'), w'))
                          | _ \<Rightarrow> (Inl (Exn TypeError ''object does not support item assignment''), w'))))))"

section \<open>Liquidity model\<close>

text \<open>
  \<open>round(x, ndigits)\<close> on the ideal value: the nearest multiple of \<open>10 ^ - ndigits\<close>, a
  tie going to the even one. Not-a-number and the infinities are returned as they are.
\<close>

definition round_half_even :: "real \<Rightarrow> int" where
  "round_half_even y =
     (let f = \<lfloor>y\<rfloor>; d = y - of_int f
      in if d < 1 / 2 then f else if 1 / 2 < d then f + 1 else if even f then f else f + 1)"

definition py_round :: "real \<Rightarrow> nat \<Rightarrow> real" where
  "py_round x ndigits = of_int (round_half_even (x * 10 ^ ndigits)) / 10 ^ ndigits"

fun round_float :: "pyfloat \<Rightarrow> nat \<Rightarrow> pyfloat" where
  "round_float (Fin x) ndigits = Fin (py_round x ndigits)"
| "round_float f ndigits = f"

text \<open>
  \<open>liquidity_score\<close>. The division raises when \<open>have + 10\<close> is zero, and the
  logarithms raise outside their domains; the steps stand in the order in which the source
  evaluates them.
\<close>

definition liquidity_score :: "(string \<Rightarrow> exn + pyfloat) \<Rightarrow> (string \<times> json) list \<Rightarrow> exn + pyfloat" where
  "liquidity_score strtod row =
     (if dict_get row ''blocked_from_sale'' = JBool True then Inr (Fin (- 1000000000))
      else
        (let num_for_sale = safe_num strtod (dict_get row ''num_for_sale'') (Fin 0);
             want = safe_num strtod (dict_get row ''want_count'') (Fin 0);
             have = safe_num strtod (dict_get row ''have_count'') (Fin 0)
         in if fadd have (Fin 10) = Fin 0 then Inl (Exn ZeroDivisionError ''float division by zero'')
            else
              (let demand_ratio = fdiv (fadd want (Fin 1)) (fadd have (Fin 10));
                   score0 = Fin 0
               in case log1p want of
                    Inl e \<Rightarrow> Inl e
                  | Inr l1 \<Rightarrow>
                      (let score1 = fadd score0 (fmul (Fin (22 / 10)) l1)
                       in case log1p num_for_sale of
                            Inl e \<Rightarrow> Inl e
                          | Inr l2 \<Rightarrow>
                              (let score2 = fadd score1 (fmul (Fin (12 / 10)) l2)
                               in case py_log demand_ratio of
                                    Inl e \<Rightarrow> Inl e
                                  | Inr l3 \<Rightarrow>
                                      (let score3 = fadd score2 (fmul (Fin 3) l3);
                                           score4 = (if num_for_sale = Fin 0 then fsub score3 (Fin 2)
                                                     else score3)
                                       in Inr (round_float score4 4)))))))"

section \<open>Ranking\<close>

text \<open>
  A row of the frame \<open>out\<close>, as far as the ordering reads it. A cell of a numeric column
  holds a float; a missing value is not-a-number.
\<close>

record out_row =
  release_id :: "int option"
  score :: pyfloat
  want_count :: pyfloat
  num_for_sale :: pyfloat

text \<open>
  \<open>sort_values\<close> of pandas on several columns, all descending, missing values last: each
  column becomes a code that is larger for a smaller value and largest for a missing one,
  and the rows are ordered by the codes lexicographically with a stable sort.
\<close>

definition desc_code :: "pyfloat \<Rightarrow> nat \<times> nat \<times> real" where
  "desc_code v =
     (case v of NaN \<Rightarrow> (1, 0, 0) | PInf \<Rightarrow> (0, 0, 0) | Fin x \<Rightarrow> (0, 1, - x) | NInf \<Rightarrow> (0, 2, 0))"

definition sort_codes ::
  "out_row \<Rightarrow> (nat \<times> nat \<times> real) \<times> (nat \<times> nat \<times> real) \<times> (nat \<times> nat \<times> real)" where
  "sort_codes r = (desc_code (score r), desc_code (want_count r), desc_code (num_for_sale r))"

definition sort_values :: "out_row list \<Rightarrow> out_row list" where
  "sort_values rows = sort_key sort_codes rows"

text \<open>\<open>out.insert(0, "Sell Order", range(1, len(out) + 1))\<close>.\<close>

definition insert_sell_order :: "out_row list \<Rightarrow> (nat \<times> out_row) list" where
  "insert_sell_order rows = zip [1 ..< length rows + 1] rows"

definition ranked_output :: "out_row list \<Rightarrow> (nat \<times> out_row) list" where
  "ranked_output rows = insert_sell_order (sort_values rows)"

text \<open>
  The ordering as the specification words it: \<open>comes_first a b\<close> when \<open>a\<close> has the
  larger value, a missing value counting as smallest; \<open>in_sell_order\<close> compares score,
  then want count, then number for sale.
\<close>

fun comes_first :: "pyfloat \<Rightarrow> pyfloat \<Rightarrow> bool" where
  "comes_first NaN v = False"
| "comes_first v NaN = True"
| "comes_first (Fin x) (Fin y) = (y < x)"
| "comes_first PInf PInf = False"
| "comes_first PInf v = True"
| "comes_first v PInf = False"
| "comes_first NInf v = False"
| "comes_first (Fin x) NInf = True"

definition in_sell_order :: "out_row \<Rightarrow> out_row \<Rightarrow> bool" where
  "in_sell_order a b =
     (comes_first (score a) (score b)
      \<or> (score a = score b
          \<and> (comes_first (want_count a) (want_count b)
              \<or> (want_count a = want_count b
                  \<and> (comes_first (num_for_sale a) (num_for_sale b)
                      \<or> num_for_sale a = num_for_sale b)))))"

section \<open>Example inputs\<close>

text \<open>Concrete worlds, responses and networks at which the theorems below are evaluated.\<close>

definition world_example :: world where
  "world_example = \<lparr>clock = 1700000000, last_request_ts = 0, requests = [], sleeps = []\<rparr>"

definition response_example :: "int \<Rightarrow> string \<Rightarrow> response" where
  "response_example s rsn =
     \<lparr>status_code = s, reason = rsn, final_url = ''https://api.discogs.com/releases/1'',
      body_text = ''{}'', retry_after = None, body_json = Inr (JObj [])\<rparr>"

text \<open>A server that answers 429 with an HTTP date in \<open>Retry-After\<close>.\<close>

definition net_http_date :: network where
  "net_http_date n req =
     Inr ((response_example 429 ''Too Many Requests'')
            \<lparr>retry_after := Some ''Wed, 21 Oct 2015 07:28:00 GMT''\<rparr>)"

text \<open>A server that answers 403 once and 200 from then on, and one that always answers 403.\<close>

definition net_forbidden_then_ok :: network where
  "net_forbidden_then_ok n req =
     (if n = 0 then Inr (response_example 403 ''Forbidden'') else Inr (response_example 200 ''OK''))"

definition net_forbidden :: network where
  "net_forbidden n req = Inr (response_example 403 ''Forbidden'')"

text \<open>
  One line of the timestamp functions of \<open>datetime\<close>: the instant 1700000000 and its
  ISO text. No theorem below reads \<open>isofmt_example\<close> at another instant.
\<close>

definition fromiso_example :: "string \<Rightarrow> real option" where
  "fromiso_example s = (if s = ''2023-11-14T22:13:20+00:00'' then Some 1700000000 else None)"

definition isofmt_example :: "real \<Rightarrow> string" where
  "isofmt_example t = (if t = 1700000000 then ''2023-11-14T22:13:20+00:00'' else [])"

text \<open>A cache entry with one marketplace fragment fetched at \<open>ts\<close>, and a cache root.\<close>

definition entry_example :: "string \<Rightarrow> json" where
  "entry_example ts =
     JObj [(''marketplace_stats'', JObj [(''fetched_at'', JStr ts), (''data'', JObj [])])]"

definition root_example :: json where
  "root_example =
     JObj [(''version'', JInt 1), (''updated_at'', JStr ''2020-01-01T00:00:00+00:00''),
           (''releases'', JObj [(''249504'', entry_example ''2023-11-14T22:13:20+00:00'')])]"

text \<open>
  A file system with nothing at any path, on which opening and replacing succeed. The text
  of its encoding error and the error of its broken-off file are placeholders: the
  theorems below name them and do not read them.
\<close>

definition disk_example :: "string \<Rightarrow> file_state" where
  "disk_example path = Missing"

definition fs_example :: fs_env where
  "fs_example =
     \<lparr>open_error = (\<lambda>path. None), replace_error = (\<lambda>src dst. None),
      encode_error_text = (\<lambda>s. ''surrogates not allowed''), partial_file = (\<lambda>v. Malformed (Exn ValueError []))\<rparr>"

text \<open>
  A cache root whose one fragment holds not-a-number as lowest price, which is what
  \<open>float\<close> makes of the value \<open>"nan"\<close> and what the JSON literal \<open>NaN\<close> decodes
  to; the same root as \<open>save_cache\<close> leaves it at the instant 1700000000; a string that
  is the lone surrogate \<open>U+D800\<close>, which the escape \<open>\ud800\<close> in a cache file decodes
  to, and a root that holds it.
\<close>

definition root_nan_example :: "(string \<times> json) list" where
  "root_nan_example =
     [(''version'', JInt 1), (''updated_at'', JStr ''2020-01-01T00:00:00+00:00''),
      (''releases'',
       JObj [(''1'', JObj [(''marketplace_stats'',
                           JObj [(''fetched_at'', JStr ''2023-11-14T22:13:20+00:00''),
                                 (''data'', JObj [(''num_for_sale'', JNull),
                                                  (''blocked_from_sale'', JBool False),
                                                  (''lowest_price'', JFloat NaN)])])])])]"

definition root_nan_saved_example :: json where
  "root_nan_saved_example =
     JObj [(''version'', JInt 1), (''updated_at'', JStr ''2023-11-14T22:13:20+00:00''),
           (''releases'',
            JObj [(''1'', JObj [(''marketplace_stats'',
                                JObj [(''fetched_at'', JStr ''2023-11-14T22:13:20+00:00''),
                                      (''data'', JObj [(''num_for_sale'', JNull),
                                                       (''blocked_from_sale'', JBool False),
                                                       (''lowest_price'', JFloat NaN)])])])])]"

definition surrogate_example :: string where
  "surrogate_example = [CHR 0xED, CHR 0xA0, CHR 0x80]"

definition root_surrogate_example :: "(string \<times> json) list" where
  "root_surrogate_example =
     [(''version'', JInt 1), (''updated_at'', JStr ''2020-01-01T00:00:00+00:00''),
      (''releases'', JObj []), (''note'', JStr surrogate_example)]"

text \<open>
  A fragment of \<open>float\<close> on strings: digit strings of at most 15 characters; on every
  other string the example raises, which no theorem below reads. Marketplace answers: one
  whose lowest-price object has no \<open>value\<close>, and a regular one without
  \<open>num_for_sale\<close>; a server that sends the regular one; what the fetcher makes of it.
\<close>

definition strtod_example :: "string \<Rightarrow> exn + pyfloat" where
  "strtod_example s =
     (case (if length s \<le> 15 then digits_value 0 False s else None) of
        None \<Rightarrow> Inl (Exn ValueError (''could not convert string to float: '' @ py_repr s))
      | Some n \<Rightarrow> Inr (Fin (real n)))"

definition payload_no_value :: json where
  "payload_no_value =
     JObj [(''num_for_sale'', JInt 3), (''blocked_from_sale'', JBool False),
           (''lowest_price'', JObj [(''currency'', JStr ''USD'')])]"

definition payload_example :: json where
  "payload_example =
     JObj [(''blocked_from_sale'', JBool False),
           (''lowest_price'', JObj [(''currency'', JStr ''USD''), (''value'', JFloat (Fin (209 / 100)))])]"

definition net_stats :: network where
  "net_stats n req = Inr ((response_example 200 ''OK'')\<lparr>body_json := Inr payload_example\<rparr>)"

definition stats_example :: json where
  "stats_example =
     JObj [(''num_for_sale'', JNull), (''blocked_from_sale'', JBool False),
           (''lowest_price'', JFloat (Fin (209 / 100)))]"

definition cache_after_example :: json where
  "cache_after_example =
     JObj [(''version'', JInt 1), (''updated_at'', JStr ''2020-01-01T00:00:00+00:00''),
           (''releases'',
            JObj [(''249504'', entry_example ''2023-11-14T22:13:20+00:00''),
                  (''1'', JObj [(''marketplace_stats'',
                                JObj [(''fetched_at'', JStr ''2023-11-14T22:13:20+00:00''),
                                      (''data'', stats_example)])])])]"

definition world_after_example :: world where
  "world_after_example =
     \<lparr>clock = 1700000000, last_request_ts = 1700000000,
      requests = [(''https://api.discogs.com/marketplace/stats/1'', [(''curr_abbr'', ''USD'')])],
      sleeps = []\<rparr>"

definition world_later_example :: world where
  "world_later_example = world_after_example\<lparr>clock := 1700003600\<rparr>"

text \<open>
  Merged records: a blocked one, one that is not blocked and has no \<open>num_for_sale\<close>,
  and one that is not blocked and whose want count is not-a-number. Rows of the output
  frame.
\<close>

definition blocked_row_example :: "(string \<times> json) list" where
  "blocked_row_example =
     [(''release_id'', JInt 1), (''num_for_sale'', JInt 4), (''blocked_from_sale'', JBool True),
      (''lowest_price'', JNull), (''want_count'', JInt 100000), (''have_count'', JInt 20)]"


definition nan_row_example :: "(string \<times> json) list" where
  "nan_row_example =
     [(''release_id'', JInt 3), (''num_for_sale'', JInt 2), (''blocked_from_sale'', JBool False),
      (''lowest_price'', JNull), (''want_count'', JFloat NaN), (''have_count'', JInt 5)]"

definition out_row_example :: "int \<Rightarrow> pyfloat \<Rightarrow> pyfloat \<Rightarrow> pyfloat \<Rightarrow> out_row" where
  "out_row_example rid s w n = \<lparr>release_id = Some rid, score = s, want_count = w, num_for_sale = n\<rparr>"

section \<open>Facts about the builtins and the rate limiter\<close>

lemma int_of_digits_error:
  "int_of_digits s body = Inl e \<Longrightarrow> exn_class_of e = ValueError"
  by (auto simp: int_of_digits_def int_error_def int_limit_error_def Let_def
      split: option.splits if_splits)

lemma py_int_error_class: "py_int s = Inl e \<Longrightarrow> exn_class_of e = ValueError"
  unfolding py_int_def
  by (auto simp: int_error_def dest: int_of_digits_error split: list.splits if_splits sum.splits)

lemma requests_rate_limit_sleep: "requests (rate_limit_sleep w) = requests w"
  by (simp add: rate_limit_sleep_def slept_def Let_def)

section \<open>The retry loop\<close>

lemma attempt_429_bad_header:
  assumes "net (length (requests w)) (url, params) = Inr r"
    and "status_code r = 429" and "retry_after r = Some s" and "py_int s = Inl e"
  shows "get_json_attempt net url params allow_404 attempt ls lt w =
           (Raised e, Some 429, Some (take 300 (body_text r)),
            (rate_limit_sleep w)\<lparr>requests := requests w @ [(url, params)]\<rparr>)"
  using assms
  by (simp add: get_json_attempt_def requests_rate_limit_sleep Let_def)

text \<open>
  Claim C10. When a 429 response carries a \<open>Retry-After\<close> header that \<open>int\<close> rejects,
  \<open>get_json\<close> ends on that attempt with the \<open>ValueError\<close> of the conversion. The error
  is no \<open>RequestException\<close>, so the handler of the loop does not take it: one request was
  issued, nothing was slept for the 429, there is no further attempt, and the error is not
  the \<open>RuntimeError\<close> that reports the last status.
\<close>

theorem get_json_retry_after_not_integer:
  assumes "net (length (requests w)) (url, params) = Inr r"
    and "status_code r = 429" and "retry_after r = Some s" and "py_int s = Inl e"
    and "0 < retries"
  shows "get_json net url params retries allow_404 w =
           (Inl e, (rate_limit_sleep w)\<lparr>requests := requests w @ [(url, params)]\<rparr>)
         \<and> exn_class_of e = ValueError
         \<and> \<not> is_RequestException (exn_class_of e)
         \<and> sleeps ((rate_limit_sleep w)\<lparr>requests := requests w @ [(url, params)]\<rparr>)
             = sleeps (rate_limit_sleep w)"
proof -
  from \<open>0 < retries\<close> obtain k where k: "nat retries = Suc k"
    by (cases "nat retries") auto
  have c: "exn_class_of e = ValueError"
    using assms(4) by (rule py_int_error_class)
  show ?thesis
    using attempt_429_bad_header[of net w url params r s e allow_404 1 None None] assms(1-4) c
    by (simp add: get_json_def k)
qed

theorem get_json_retry_after_not_integer_witness:
  "net_http_date (length (requests world_example)) (''https://api.discogs.com/releases/1'', [])
     = Inr ((response_example 429 ''Too Many Requests'')
              \<lparr>retry_after := Some ''Wed, 21 Oct 2015 07:28:00 GMT''\<rparr>)
   \<and> py_int ''Wed, 21 Oct 2015 07:28:00 GMT''
       = Inl (int_error ''Wed, 21 Oct 2015 07:28:00 GMT'')
   \<and> get_json net_http_date ''https://api.discogs.com/releases/1'' [] 5 False world_example
       = (Inl (int_error ''Wed, 21 Oct 2015 07:28:00 GMT''),
          \<lparr>clock = 1700000000, last_request_ts = 1700000000,
           requests = [(''https://api.discogs.com/releases/1'', [])], sleeps = []\<rparr>)"
proof -
  have h1: "net_http_date (length (requests world_example)) (''https://api.discogs.com/releases/1'', [])
     = Inr ((response_example 429 ''Too Many Requests'')
              \<lparr>retry_after := Some ''Wed, 21 Oct 2015 07:28:00 GMT''\<rparr>)"
    by (simp add: net_http_date_def)
  have h2: "py_int ''Wed, 21 Oct 2015 07:28:00 GMT''
       = Inl (int_error ''Wed, 21 Oct 2015 07:28:00 GMT'')"
    by (simp add: py_int_def int_of_digits_def strip_def is_space_def is_digit_def Let_def)
  have h3: "status_code ((response_example 429 ''Too Many Requests'')
              \<lparr>retry_after := Some ''Wed, 21 Oct 2015 07:28:00 GMT''\<rparr>) = 429"
    by (simp add: response_example_def)
  have h4: "retry_after ((response_example 429 ''Too Many Requests'')
              \<lparr>retry_after := Some ''Wed, 21 Oct 2015 07:28:00 GMT''\<rparr>)
              = Some ''Wed, 21 Oct 2015 07:28:00 GMT''"
    by simp
  have h5: "(0::int) < 5" by simp
  have w: "(rate_limit_sleep world_example)
             \<lparr>requests := requests world_example @ [(''https://api.discogs.com/releases/1'', [])]\<rparr>
           = \<lparr>clock = 1700000000, last_request_ts = 1700000000,
              requests = [(''https://api.discogs.com/releases/1'', [])], sleeps = []\<rparr>"
    by (simp add: rate_limit_sleep_def world_example_def MIN_SECONDS_PER_REQUEST_def Let_def)
  show ?thesis
    using get_json_retry_after_not_integer[of net_http_date world_example
        "''https://api.discogs.com/releases/1''" "[]" _ "''Wed, 21 Oct 2015 07:28:00 GMT''" _ 5 False]
      h1 h2 h3 h4 h5 w
    by simp
qed

lemma int_error_http_date:
  "int_error ''Wed, 21 Oct 2015 07:28:00 GMT''
     = Exn ValueError (''invalid literal for int() with base 10: '' @ [apostrophe]
                       @ ''Wed, 21 Oct 2015 07:28:00 GMT'' @ [apostrophe])"
  by (simp add: int_error_def py_repr_def repr_char_def apostrophe_def double_quote_def
      backslash_def Let_def)

lemma py_int_examples:
  "py_int ''  12_3 '' = Inr 123"
  "py_int ''-5'' = Inr (- 5)"
  "py_int [CHR 0x1C, CHR ''5''] = Inl (int_error [CHR 0x1C, CHR ''5''])"
  "py_int [CHR ''5'', CHR 0xA0] = Inr 5"
  by (simp_all add: py_int_def int_of_digits_def strip_def is_space_def is_digit_def digit_val_def
      MAX_STR_DIGITS_def Let_def)

text \<open>
  Claim C1 says that a status that is neither a success nor in one of the listed cases
  ends \<open>get_json\<close> on the attempt that sees it. The code does not do so. With a server
  that answers 403 and then 200, \<open>raise_for_status\<close> raises \<open>HTTPError\<close> on the first
  attempt, the handler of the loop takes it as it takes a transport failure, the loop
  sleeps one second and issues a second request, and the body of the 200 is returned.
\<close>

theorem get_json_retries_forbidden:
  "get_json net_forbidden_then_ok ''https://api.discogs.com/releases/1'' [] 5 False world_example
     = (Inr (JObj []),
        \<lparr>clock = 1700000000 + 105 / 100, last_request_ts = 1700000000 + 105 / 100,
         requests = [(''https://api.discogs.com/releases/1'', []),
                     (''https://api.discogs.com/releases/1'', [])],
         sleeps = [1, 5 / 100]\<rparr>)"
  by (simp add: get_json_def get_json_attempt_def net_forbidden_then_ok_def world_example_def
      response_example_def rate_limit_sleep_def MIN_SECONDS_PER_REQUEST_def raise_for_status_def
      slept_def numeral_eq_Suc Let_def)

section \<open>Freshness\<close>

text \<open>
  Claim C2 says that a fragment whose timestamp is missing or does not parse is never
  fresh, whatever the time-to-live. The code keeps that for a missing or empty
  \<open>fetched_at\<close>, which returns \<open>False\<close> before any time is read. A timestamp that
  does not parse goes another way: \<open>_parse_iso\<close> returns \<open>0.0\<close> for it, the age is
  the present time since the epoch, and with a time-to-live above that the fragment is
  fresh.
\<close>

theorem is_fresh_unparseable_huge_ttl:
  "is_fresh fromiso_example 1700000000 (entry_example ''not a timestamp'') ''marketplace_stats'' 2000000000
     = Inr True"
  by (simp add: is_fresh_def entry_example_def dict_get_default_def dict_get_def fromiso_example_def
      replace_Z_def)

lemma is_fresh_missing_never_fresh:
  assumes "dict_get_default e field (JObj []) = JObj meta"
    and "\<not> truthy (dict_get meta ''fetched_at'')"
  shows "is_fresh fromiso now (JObj e) field ttl = Inr False"
  using assms by (simp add: is_fresh_def Let_def)

lemma is_fresh_parsed:
  assumes "dict_get_default e field (JObj []) = JObj meta"
    and "dict_get meta ''fetched_at'' = JStr s" and "s \<noteq> []"
    and "fromiso (replace_Z s) = Some t"
  shows "is_fresh fromiso now (JObj e) field ttl = Inr (0 \<le> now - t \<and> now - t < of_int ttl)"
  using assms by (simp add: is_fresh_def Let_def)

section \<open>Loading and saving the cache\<close>

lemma map_of_dict_set: "map_of (dict_set d k v) k' = (if k' = k then Some v else map_of d k')"
  by (induction d) auto

lemma dict_setdefault_present: "map_of d k = Some u \<Longrightarrow> dict_setdefault d k v = d"
  by (simp add: dict_setdefault_def)

lemma map_of_dict_setdefault:
  "map_of (dict_setdefault d k v) k' = (if k' = k \<and> map_of d k = None then Some v else map_of d k')"
  by (auto simp: dict_setdefault_def map_of_dict_set split: option.splits)

lemma load_cache_try_dict:
  "\<exists>d' v u rels. load_cache_try isofmt now (Holds (JObj d)) = Inr (JObj d')
     \<and> map_of d' ''version'' = Some v \<and> map_of d' ''updated_at'' = Some u
     \<and> map_of d' ''releases'' = Some (JObj rels)"
proof -
  let ?d3 = "dict_setdefault (dict_setdefault (dict_setdefault d ''version'' (JInt 1))
               ''updated_at'' (JStr (utc_now_iso isofmt now))) ''releases'' (JObj [])"
  obtain v where v: "map_of ?d3 ''version'' = Some v"
    by (cases "map_of d ''version''") (auto simp: map_of_dict_setdefault)
  obtain u where u: "map_of ?d3 ''updated_at'' = Some u"
    by (cases "map_of d ''updated_at''") (auto simp: map_of_dict_setdefault)
  obtain r where r: "map_of ?d3 ''releases'' = Some r"
    by (cases "map_of d ''releases''") (auto simp: map_of_dict_setdefault)
  show ?thesis
  proof (cases "is_dict r")
    case True
    then obtain rels where "r = JObj rels" by (cases r) auto
    with v u r show ?thesis
      by (simp add: load_cache_try_def Let_def dict_get_def)
  next
    case False
    with v u r show ?thesis
      by (simp add: load_cache_try_def Let_def dict_get_def map_of_dict_set)
  qed
qed

text \<open>
  Claim C3. Whatever is at the cache path, \<open>load_cache\<close> returns a root and does not
  raise; the root is a dict that has \<open>version\<close>, \<open>updated_at\<close> and a dict under
  \<open>releases\<close>. For a missing, unreadable or malformed file, and for JSON that is not an
  object, the root is the freshly initialised one, whose \<open>releases\<close> is empty.
\<close>

theorem load_cache_never_raises:
  "(\<exists>d v u rels. load_cache isofmt now f = Inr (JObj d)
       \<and> map_of d ''version'' = Some v \<and> map_of d ''updated_at'' = Some u
       \<and> map_of d ''releases'' = Some (JObj rels))
   \<and> load_cache isofmt now Missing = Inr (fresh_root isofmt now)
   \<and> load_cache isofmt now (Unreadable e) = Inr (fresh_root isofmt now)
   \<and> load_cache isofmt now (Malformed e) = Inr (fresh_root isofmt now)
   \<and> load_cache isofmt now (Holds JNull) = Inr (fresh_root isofmt now)
   \<and> load_cache isofmt now (Holds (JBool b)) = Inr (fresh_root isofmt now)
   \<and> load_cache isofmt now (Holds (JInt i)) = Inr (fresh_root isofmt now)
   \<and> load_cache isofmt now (Holds (JFloat x)) = Inr (fresh_root isofmt now)
   \<and> load_cache isofmt now (Holds (JStr s)) = Inr (fresh_root isofmt now)
   \<and> load_cache isofmt now (Holds (JArr xs)) = Inr (fresh_root isofmt now)
   \<and> subscript (fresh_root isofmt now) ''releases'' = Inr (JObj [])"
proof -
  have fresh: "\<exists>d v u rels. fresh_root isofmt now = JObj d
       \<and> map_of d ''version'' = Some v \<and> map_of d ''updated_at'' = Some u
       \<and> map_of d ''releases'' = Some (JObj rels)"
    by (simp add: fresh_root_def)
  have total: "\<exists>d v u rels. load_cache isofmt now f = Inr (JObj d)
       \<and> map_of d ''version'' = Some v \<and> map_of d ''updated_at'' = Some u
       \<and> map_of d ''releases'' = Some (JObj rels)"
  proof (cases f)
    case (Holds data)
    show ?thesis
    proof (cases data)
      case (JObj d)
      with Holds load_cache_try_dict[of isofmt now d] show ?thesis
        by (auto simp: load_cache_def)
    qed (use Holds fresh in \<open>simp_all add: load_cache_def load_cache_try_def\<close>)
  qed (use fresh in \<open>simp_all add: load_cache_def load_cache_try_def\<close>)
  show ?thesis
    using total by (simp add: load_cache_def load_cache_try_def fresh_root_def subscript_def)
qed

lemma tmp_path_differs: "cache_path @ ''.tmp'' \<noteq> cache_path"
proof
  assume "cache_path @ ''.tmp'' = cache_path"
  then have "length (cache_path @ ''.tmp'') = length cache_path" by simp
  then show False by simp
qed

lemma dump_error_small_int:
  assumes "\<bar>i\<bar> < 10"
  shows "dump_error env (JInt i) = None"
proof -
  have "str_nat (nat \<bar>i\<bar>) = [digit_char (nat \<bar>i\<bar>)]"
    using assms by (subst str_nat.simps) (simp add: nat_less_iff)
  then show ?thesis
    by (simp add: MAX_STR_DIGITS_def)
qed

lemma save_cache_written:
  assumes "open_error env (cache_path @ ''.tmp'') = None"
    and "replace_error env (cache_path @ ''.tmp'') cache_path = None"
    and "dump_error env (JObj (dict_set cache ''updated_at'' (JStr (isofmt now)))) = None"
  shows "fst (save_cache env isofmt now disk cache_path cache) = Inr ()"
    and "fst (snd (save_cache env isofmt now disk cache_path cache))
           = JObj (dict_set cache ''updated_at'' (JStr (isofmt now)))"
    and "snd (snd (save_cache env isofmt now disk cache_path cache)) cache_path
           = Holds (JObj (dict_set cache ''updated_at'' (JStr (isofmt now))))"
  using assms by (simp_all add: save_cache_def utc_now_iso_def Let_def)

lemma save_cache_broken_off:
  assumes "open_error env (cache_path @ ''.tmp'') = None"
    and "dump_error env (JObj (dict_set cache ''updated_at'' (JStr (isofmt now)))) = Some e"
  shows "fst (save_cache env isofmt now disk cache_path cache) = Inl e"
    and "snd (snd (save_cache env isofmt now disk cache_path cache)) cache_path = disk cache_path"
  using assms tmp_path_differs[of cache_path]
  by (simp_all add: save_cache_def utc_now_iso_def Let_def)

lemma load_after_save_written:
  assumes "map_of cache ''version'' = Some v" and "map_of cache ''releases'' = Some (JObj rels)"
  shows "load_cache isofmt' now' (Holds (JObj (dict_set cache ''updated_at'' (JStr ts))))
           = Inr (JObj (dict_set cache ''updated_at'' (JStr ts)))"
proof -
  let ?d' = "dict_set cache ''updated_at'' (JStr ts)"
  have v: "map_of ?d' ''version'' = Some v" using assms by (simp add: map_of_dict_set)
  have u: "map_of ?d' ''updated_at'' = Some (JStr ts)" by (simp add: map_of_dict_set)
  have r: "map_of ?d' ''releases'' = Some (JObj rels)" using assms by (simp add: map_of_dict_set)
  have "load_cache_try isofmt' now' (Holds (JObj ?d')) = Inr (JObj ?d')"
    using v u r by (simp add: load_cache_try_def Let_def dict_setdefault_present dict_get_def)
  then show ?thesis by (simp add: load_cache_def)
qed

text \<open>
  Claim C8 says that saving a structurally valid root and loading the path again gives a
  root equal to the one saved. The code does not keep that in two cases. A root that holds
  not-a-number is saved without error and the file decodes to the root as \<open>save_cache\<close>
  left it, yet \<open>==\<close> finds the loaded root and the saved one unequal, since
  not-a-number equals nothing. And a root that holds a string with a lone surrogate is not
  saved at all: the dump raises \<open>UnicodeEncodeError\<close> and the cache path is left as it
  was, here without a file.
\<close>

theorem save_then_load_nan_unequal:
  "fst (save_cache fs_example isofmt_example 1700000000 disk_example ''discogs_cache.json''
          root_nan_example) = Inr ()
   \<and> fst (snd (save_cache fs_example isofmt_example 1700000000 disk_example ''discogs_cache.json''
          root_nan_example)) = root_nan_saved_example
   \<and> load_cache isofmt_example 1700000500
        (snd (snd (save_cache fs_example isofmt_example 1700000000 disk_example
                     ''discogs_cache.json'' root_nan_example)) ''discogs_cache.json'')
       = Inr root_nan_saved_example
   \<and> \<not> py_eq root_nan_saved_example root_nan_saved_example
   \<and> fst (save_cache fs_example isofmt_example 1700000000 disk_example ''discogs_cache.json''
          root_surrogate_example)
       = Inl (Exn UnicodeEncodeError (encode_error_text fs_example surrogate_example))
   \<and> snd (snd (save_cache fs_example isofmt_example 1700000000 disk_example ''discogs_cache.json''
          root_surrogate_example)) ''discogs_cache.json'' = Missing"
proof -
  have s: "JObj (dict_set root_nan_example ''updated_at'' (JStr (isofmt_example 1700000000)))
             = root_nan_saved_example"
    by (simp add: root_nan_example_def root_nan_saved_example_def isofmt_example_def)
  have o: "open_error fs_example (''discogs_cache.json'' @ ''.tmp'') = None"
    "replace_error fs_example (''discogs_cache.json'' @ ''.tmp'') ''discogs_cache.json'' = None"
    by (simp_all add: fs_example_def)
  have e: "dump_error fs_example (JObj (dict_set root_nan_example ''updated_at''
             (JStr (isofmt_example 1700000000)))) = None"
    unfolding s by (simp add: root_nan_saved_example_def dump_error_small_int del: dump_error.simps(2))
  have l: "load_cache isofmt_example 1700000500 (Holds root_nan_saved_example)
             = Inr root_nan_saved_example"
    using load_after_save_written[of root_nan_example "JInt 1" _ isofmt_example 1700000500
        "isofmt_example 1700000000"]
    unfolding s by (simp add: root_nan_example_def)
  have n: "\<not> py_eq root_nan_saved_example root_nan_saved_example"
    by (simp add: root_nan_saved_example_def feq_def)
  have d: "dump_error fs_example (JObj (dict_set root_surrogate_example ''updated_at''
             (JStr (isofmt_example 1700000000))))
           = Some (Exn UnicodeEncodeError (encode_error_text fs_example surrogate_example))"
    by (simp add: root_surrogate_example_def isofmt_example_def surrogate_example_def
        dump_error_small_int del: dump_error.simps(2))
  have m: "disk_example ''discogs_cache.json'' = Missing"
    by (simp add: disk_example_def)
  show ?thesis
    using save_cache_written[of fs_example "''discogs_cache.json''" root_nan_example
        isofmt_example 1700000000 disk_example] o e l n
      save_cache_broken_off[of fs_example "''discogs_cache.json''" root_surrogate_example
        isofmt_example 1700000000 _ disk_example] d m
    unfolding s by simp
qed

section \<open>Normalisation of marketplace answers\<close>

text \<open>
  Claim C5 says that the normalisation never raises on a missing field. The code keeps
  that for the fields of the answer itself, which are read with \<open>get\<close> and come out as
  \<open>None\<close>, and for a missing or null \<open>lowest_price\<close>. Inside a lowest-price object it
  reads \<open>value\<close> with \<open>get\<close> as well and hands the result to \<open>float\<close>: when the
  object has no \<open>value\<close>, that is \<open>float(None)\<close>, a \<open>TypeError\<close>.
\<close>

theorem marketplace_stats_missing_value_raises:
  "marketplace_stats_of strtod_example payload_no_value = Inl (type_error_float ''NoneType'')"
  by (simp add: marketplace_stats_of_def payload_no_value_def dict_get_def)

lemma marketplace_stats_no_lowest_price:
  assumes "d \<noteq> []" and "dict_get d ''lowest_price'' = JNull"
  shows "marketplace_stats_of strtod (JObj d)
           = Inr (JObj [(''num_for_sale'', dict_get d ''num_for_sale''),
                        (''blocked_from_sale'', dict_get d ''blocked_from_sale''),
                        (''lowest_price'', JNull)])"
  using assms by (simp add: marketplace_stats_of_def)

lemma marketplace_stats_no_data:
  "\<not> truthy data \<Longrightarrow>
     marketplace_stats_of strtod data
       = Inr (JObj [(''num_for_sale'', JNull), (''blocked_from_sale'', JNull), (''lowest_price'', JNull)])"
  by (simp add: marketplace_stats_of_def)

section \<open>Cache hits\<close>

lemma cache_get_after_put:
  "cache_put_release cache rid entry = Inr cache' \<Longrightarrow> cache_get_release cache' rid = Inr entry"
  by (auto simp: cache_put_release_def cache_get_release_def map_of_dict_set dict_get_default_def
      split: json.splits option.splits)

lemma is_fresh_stamped:
  assumes "fromiso (replace_Z ts) = Some t" and "ts \<noteq> []"
    and "t \<le> now" and "now - t < of_int ttl"
  shows "is_fresh fromiso now
           (JObj (dict_set ed field (JObj [(''fetched_at'', JStr ts), (''data'', x)]))) field ttl
         = Inr True"
  using assms
  by (simp add: is_fresh_def dict_get_default_def map_of_dict_set dict_get_def Let_def)

lemma subscript_stamped:
  "subscript (JObj (dict_set ed field frag)) field = Inr frag"
  by (simp add: subscript_def map_of_dict_set)

lemma marketplace_hit:
  assumes "cache_get_release cache rid = Inr entry"
    and "is_fresh fromiso (clock w) entry ''marketplace_stats'' ttl = Inr True"
    and "subscript entry ''marketplace_stats'' = Inr frag"
    and "subscript frag ''data'' = Inr stored"
  shows "fetch_marketplace_stats_cached net isofmt fromiso strtod rid cache ttl w
           = (Inr (stored, True, cache), w)"
  using assms by (simp add: fetch_marketplace_stats_cached_def)

lemma release_hit:
  assumes "cache_get_release cache rid = Inr entry"
    and "is_fresh fromiso (clock w) entry ''release_details'' ttl = Inr True"
    and "subscript entry ''release_details'' = Inr frag"
    and "subscript frag ''data'' = Inr stored"
  shows "fetch_release_details_cached net isofmt fromiso rid cache ttl w
           = (Inr (stored, True, cache), w)"
  using assms by (simp add: fetch_release_details_cached_def)

lemma marketplace_miss_shape:
  assumes "fetch_marketplace_stats_cached net isofmt fromiso strtod rid cache ttl w
             = (Inr (stats, False, cache'), w')"
  shows "\<exists>ed data. cache_get_release cache rid = Inr (JObj ed)
           \<and> get_json net (BASE @ ''/marketplace/stats/'' @ str_int rid)
                [(''curr_abbr'', CURRENCY)] 5 True w = (Inr data, w')
           \<and> marketplace_stats_of strtod data = Inr stats
           \<and> cache_put_release cache rid
                (JObj (dict_set ed ''marketplace_stats''
                   (JObj [(''fetched_at'', JStr (isofmt (clock w'))), (''data'', stats)])))
               = Inr cache'"
  using assms
  by (auto simp: fetch_marketplace_stats_cached_def utc_now_iso_def Let_def
      split: sum.splits bool.splits prod.splits json.splits if_splits)

lemma release_miss_shape:
  assumes "fetch_release_details_cached net isofmt fromiso rid cache ttl w
             = (Inr (details, False, cache'), w')"
  shows "\<exists>ed data. cache_get_release cache rid = Inr (JObj ed)
           \<and> get_json net (BASE @ ''/releases/'' @ str_int rid) [] 5 False w = (Inr data, w')
           \<and> release_details_of data = Inr details
           \<and> cache_put_release cache rid
                (JObj (dict_set ed ''release_details''
                   (JObj [(''fetched_at'', JStr (isofmt (clock w'))), (''data'', details)])))
               = Inr cache'"
  using assms
  by (auto simp: fetch_release_details_cached_def utc_now_iso_def Let_def
      split: sum.splits bool.splits prod.splits json.splits if_splits)

lemma marketplace_miss_then_hit:
  assumes miss: "fetch_marketplace_stats_cached net isofmt fromiso strtod rid cache ttl w
             = (Inr (stats, False, cache'), w')"
    and rt: "fromiso (replace_Z (isofmt (clock w'))) = Some (clock w')" "isofmt (clock w') \<noteq> []"
    and later: "clock w' \<le> clock w2" "clock w2 - clock w' < of_int ttl2"
  shows "fetch_marketplace_stats_cached net2 isofmt fromiso strtod rid cache' ttl2 w2
           = (Inr (stats, True, cache'), w2)"
proof -
  let ?frag = "JObj [(''fetched_at'', JStr (isofmt (clock w'))), (''data'', stats)]"
  from marketplace_miss_shape[OF miss] obtain ed where
    put: "cache_put_release cache rid (JObj (dict_set ed ''marketplace_stats'' ?frag)) = Inr cache'"
    by blast
  have g: "cache_get_release cache' rid = Inr (JObj (dict_set ed ''marketplace_stats'' ?frag))"
    by (rule cache_get_after_put[OF put])
  have f: "is_fresh fromiso (clock w2) (JObj (dict_set ed ''marketplace_stats'' ?frag)) ''marketplace_stats'' ttl2
             = Inr True"
    using rt later by (simp add: is_fresh_stamped)
  have s1: "subscript (JObj (dict_set ed ''marketplace_stats'' ?frag)) ''marketplace_stats'' = Inr ?frag"
    by (rule subscript_stamped)
  have s2: "subscript ?frag ''data'' = Inr stats"
    by (simp add: subscript_def)
  show ?thesis
    by (rule marketplace_hit[OF g f s1 s2])
qed

lemma release_miss_then_hit:
  assumes miss: "fetch_release_details_cached net isofmt fromiso rid cache ttl w
             = (Inr (details, False, cache'), w')"
    and rt: "fromiso (replace_Z (isofmt (clock w'))) = Some (clock w')" "isofmt (clock w') \<noteq> []"
    and later: "clock w' \<le> clock w2" "clock w2 - clock w' < of_int ttl2"
  shows "fetch_release_details_cached net2 isofmt fromiso rid cache' ttl2 w2
           = (Inr (details, True, cache'), w2)"
proof -
  let ?frag = "JObj [(''fetched_at'', JStr (isofmt (clock w'))), (''data'', details)]"
  from release_miss_shape[OF miss] obtain ed where
    put: "cache_put_release cache rid (JObj (dict_set ed ''release_details'' ?frag)) = Inr cache'"
    by blast
  have g: "cache_get_release cache' rid = Inr (JObj (dict_set ed ''release_details'' ?frag))"
    by (rule cache_get_after_put[OF put])
  have f: "is_fresh fromiso (clock w2) (JObj (dict_set ed ''release_details'' ?frag)) ''release_details'' ttl2
             = Inr True"
    using rt later by (simp add: is_fresh_stamped)
  have s1: "subscript (JObj (dict_set ed ''release_details'' ?frag)) ''release_details'' = Inr ?frag"
    by (rule subscript_stamped)
  have s2: "subscript ?frag ''data'' = Inr details"
    by (simp add: subscript_def)
  show ?thesis
    by (rule release_hit[OF g f s1 s2])
qed


text \<open>
  Claim C6. When the fragment of an identifier is fresh and holds \<open>data\<close>, either
  fetcher returns the stored data with the hit flag set, and the world is the one it was
  given: no request was issued and nothing was slept. And the data of a hit is the data of
  the miss that stored it: after a miss returned \<open>stats\<close> (the normalised answer of the
  server) and left the cache \<open>cache'\<close>, a call on \<open>cache'\<close> within the time-to-live
  returns the same \<open>stats\<close> as a hit, whatever the network would answer by then. The
  timestamp written by the miss has to read back as the instant it was written at, which is
  what \<open>isoformat\<close> and \<open>fromisoformat\<close> do.
\<close>

theorem cache_hit_no_network:
  "(cache_get_release cache rid = Inr entry
      \<and> is_fresh fromiso (clock w) entry ''marketplace_stats'' ttl = Inr True
      \<and> subscript entry ''marketplace_stats'' = Inr frag
      \<and> subscript frag ''data'' = Inr stored
    \<longrightarrow> fetch_marketplace_stats_cached net isofmt fromiso strtod rid cache ttl w
          = (Inr (stored, True, cache), w))
   \<and> (cache_get_release cache rid = Inr entry
      \<and> is_fresh fromiso (clock w) entry ''release_details'' ttl = Inr True
      \<and> subscript entry ''release_details'' = Inr frag
      \<and> subscript frag ''data'' = Inr stored
    \<longrightarrow> fetch_release_details_cached net isofmt fromiso rid cache ttl w
          = (Inr (stored, True, cache), w))
   \<and> (fetch_marketplace_stats_cached net isofmt fromiso strtod rid cache ttl w
          = (Inr (stats, False, cache'), w')
      \<and> fromiso (replace_Z (isofmt (clock w'))) = Some (clock w') \<and> isofmt (clock w') \<noteq> []
      \<and> clock w' \<le> clock w2 \<and> clock w2 - clock w' < of_int ttl2
    \<longrightarrow> fetch_marketplace_stats_cached net2 isofmt fromiso strtod rid cache' ttl2 w2
          = (Inr (stats, True, cache'), w2)
        \<and> (\<exists>data. get_json net (BASE @ ''/marketplace/stats/'' @ str_int rid)
                      [(''curr_abbr'', CURRENCY)] 5 True w = (Inr data, w')
                  \<and> marketplace_stats_of strtod data = Inr stats))
   \<and> (fetch_release_details_cached net isofmt fromiso rid cache ttl w
          = (Inr (details, False, cache'), w')
      \<and> fromiso (replace_Z (isofmt (clock w'))) = Some (clock w') \<and> isofmt (clock w') \<noteq> []
      \<and> clock w' \<le> clock w2 \<and> clock w2 - clock w' < of_int ttl2
    \<longrightarrow> fetch_release_details_cached net2 isofmt fromiso rid cache' ttl2 w2
          = (Inr (details, True, cache'), w2)
        \<and> (\<exists>data. get_json net (BASE @ ''/releases/'' @ str_int rid) [] 5 False w = (Inr data, w')
                  \<and> release_details_of data = Inr details))"
proof (intro conjI impI)
  assume "cache_get_release cache rid = Inr entry
      \<and> is_fresh fromiso (clock w) entry ''marketplace_stats'' ttl = Inr True
      \<and> subscript entry ''marketplace_stats'' = Inr frag
      \<and> subscript frag ''data'' = Inr stored"
  then show "fetch_marketplace_stats_cached net isofmt fromiso strtod rid cache ttl w
          = (Inr (stored, True, cache), w)"
    by (simp add: marketplace_hit)
next
  assume "cache_get_release cache rid = Inr entry
      \<and> is_fresh fromiso (clock w) entry ''release_details'' ttl = Inr True
      \<and> subscript entry ''release_details'' = Inr frag
      \<and> subscript frag ''data'' = Inr stored"
  then show "fetch_release_details_cached net isofmt fromiso rid cache ttl w
          = (Inr (stored, True, cache), w)"
    by (simp add: release_hit)
next
  assume a: "fetch_marketplace_stats_cached net isofmt fromiso strtod rid cache ttl w
          = (Inr (stats, False, cache'), w')
      \<and> fromiso (replace_Z (isofmt (clock w'))) = Some (clock w') \<and> isofmt (clock w') \<noteq> []
      \<and> clock w' \<le> clock w2 \<and> clock w2 - clock w' < of_int ttl2"
  then show "fetch_marketplace_stats_cached net2 isofmt fromiso strtod rid cache' ttl2 w2
          = (Inr (stats, True, cache'), w2)"
    using marketplace_miss_then_hit[of net isofmt fromiso strtod rid cache ttl w stats cache' w' w2 ttl2 net2]
    by blast
  from a show "\<exists>data. get_json net (BASE @ ''/marketplace/stats/'' @ str_int rid)
                      [(''curr_abbr'', CURRENCY)] 5 True w = (Inr data, w')
                  \<and> marketplace_stats_of strtod data = Inr stats"
    using marketplace_miss_shape[of net isofmt fromiso strtod rid cache ttl w stats cache' w']
    by blast
next
  assume a: "fetch_release_details_cached net isofmt fromiso rid cache ttl w
          = (Inr (details, False, cache'), w')
      \<and> fromiso (replace_Z (isofmt (clock w'))) = Some (clock w') \<and> isofmt (clock w') \<noteq> []
      \<and> clock w' \<le> clock w2 \<and> clock w2 - clock w' < of_int ttl2"
  then show "fetch_release_details_cached net2 isofmt fromiso rid cache' ttl2 w2
          = (Inr (details, True, cache'), w2)"
    using release_miss_then_hit[of net isofmt fromiso rid cache ttl w details cache' w' w2 ttl2 net2]
    by blast
  from a show "\<exists>data. get_json net (BASE @ ''/releases/'' @ str_int rid) [] 5 False w = (Inr data, w')
                  \<and> release_details_of data = Inr details"
    using release_miss_shape[of net isofmt fromiso rid cache ttl w details cache' w']
    by blast
qed

lemma miss_example:
  "fetch_marketplace_stats_cached net_stats isofmt_example fromiso_example strtod_example 1
       root_example 86400 world_example
     = (Inr (stats_example, False, cache_after_example), world_after_example)"
  by (simp add: fetch_marketplace_stats_cached_def cache_get_release_def root_example_def
      dict_get_default_def str_int_def str_nat.simps digit_char_def is_fresh_def dict_get_def
      get_json_def get_json_attempt_def net_stats_def response_example_def world_example_def
      rate_limit_sleep_def MIN_SECONDS_PER_REQUEST_def raise_for_status_def numeral_eq_Suc
      marketplace_stats_of_def payload_example_def stats_example_def cache_put_release_def
      cache_after_example_def world_after_example_def utc_now_iso_def isofmt_example_def
      BASE_def CURRENCY_def Let_def)

theorem cache_hit_no_network_witness:
  "fetch_marketplace_stats_cached net_stats isofmt_example fromiso_example strtod_example 1
       root_example 86400 world_example
     = (Inr (stats_example, False, cache_after_example), world_after_example)
   \<and> fetch_marketplace_stats_cached net_forbidden isofmt_example fromiso_example strtod_example 1
       cache_after_example 86400 world_later_example
     = (Inr (stats_example, True, cache_after_example), world_later_example)"
proof -
  have rt: "fromiso_example (replace_Z (isofmt_example (clock world_after_example)))
              = Some (clock world_after_example)"
    "isofmt_example (clock world_after_example) \<noteq> []"
    by (simp_all add: world_after_example_def isofmt_example_def fromiso_example_def replace_Z_def)
  have later: "clock world_after_example \<le> clock world_later_example"
    "clock world_later_example - clock world_after_example < of_int 86400"
    by (simp_all add: world_after_example_def world_later_example_def)
  show ?thesis
    using cache_hit_no_network[of root_example 1 _ fromiso_example world_example 86400 _ _ net_stats
        isofmt_example strtod_example stats_example cache_after_example world_after_example
        world_later_example 86400 net_forbidden]
      miss_example rt later
    by simp
qed

section \<open>Scoring\<close>

subsection \<open>\<open>float\<close> of a small integer\<close>

lemma bit_length_le: "n < 2 ^ k \<Longrightarrow> bit_length n \<le> k"
proof (induction k arbitrary: n)
  case 0
  then show ?case by (subst bit_length.simps) simp
next
  case (Suc k)
  have "n div 2 < 2 ^ k" using Suc.prems by simp
  then have "bit_length (n div 2) \<le> k" by (rule Suc.IH)
  then show ?case by (subst bit_length.simps) simp
qed

lemma round_to_double_small: "n < 2 ^ 53 \<Longrightarrow> round_to_double n = n"
  using bit_length_le[of n 53] by (simp add: round_to_double_def Let_def)

lemma py_float_small_int:
  assumes "\<bar>i\<bar> < 2 ^ 53"
  shows "py_float strtod (JInt i) = Inr (Fin (of_int i))"
proof -
  have n: "nat \<bar>i\<bar> < 2 ^ 53" using assms by (simp add: nat_less_iff)
  have r: "round_to_double (nat \<bar>i\<bar>) = nat \<bar>i\<bar>"
    using n by (rule round_to_double_small)
  have "(2::nat) ^ 53 \<le> 2 ^ 1024" by (rule power_increasing) simp_all
  then have b: "\<not> 2 ^ 1024 \<le> nat \<bar>i\<bar>" using n by linarith
  show ?thesis
    using r b by (auto simp: Let_def)
qed

subsection \<open>Bounds on the exponential and on \<open>ln 10\<close>\<close>












subsection \<open>The sentinel of blocked records\<close>

lemma liquidity_score_blocked:
  "dict_get row ''blocked_from_sale'' = JBool True
     \<Longrightarrow> liquidity_score strtod row = Inr (Fin (- 1000000000))"
  by (simp add: liquidity_score_def)

text \<open>
  Claim C4 says that the sentinel of a blocked record sorts below every score a record
  that is not blocked can get, so that blocked items come last. The code does not keep
  that when a count is not-a-number, which \<open>safe_num\<close> lets through since \<open>float\<close>
  accepts it. The logarithms and \<open>round\<close> pass it on, the score of the record is
  not-a-number, and the frame sorts a missing score after every number: the record that
  is not blocked gets the last rank, behind the blocked one.
\<close>

theorem nan_score_sorts_after_blocked:
  "liquidity_score strtod_example nan_row_example = Inr NaN
   \<and> liquidity_score strtod_example blocked_row_example = Inr (Fin (- 1000000000))
   \<and> ranked_output [out_row_example 3 NaN NaN (Fin 2),
                     out_row_example 1 (Fin (- 1000000000)) (Fin 100000) (Fin 4)]
       = [(1, out_row_example 1 (Fin (- 1000000000)) (Fin 100000) (Fin 4)),
          (2, out_row_example 3 NaN NaN (Fin 2))]"
proof -
  have five: "py_float strtod_example (JInt 5) = Inr (Fin 5)"
    using py_float_small_int[of 5 strtod_example] by simp
  have two: "py_float strtod_example (JInt 2) = Inr (Fin 2)"
    using py_float_small_int[of 2 strtod_example] by simp
  have a: "liquidity_score strtod_example nan_row_example = Inr NaN"
    using five two
    by (simp add: liquidity_score_def nan_row_example_def dict_get_def safe_num_def Let_def)
  have b: "liquidity_score strtod_example blocked_row_example = Inr (Fin (- 1000000000))"
    by (rule liquidity_score_blocked) (simp add: blocked_row_example_def dict_get_def)
  have c: "ranked_output [out_row_example 3 NaN NaN (Fin 2),
                     out_row_example 1 (Fin (- 1000000000)) (Fin 100000) (Fin 4)]
       = [(1, out_row_example 1 (Fin (- 1000000000)) (Fin 100000) (Fin 4)),
          (2, out_row_example 3 NaN NaN (Fin 2))]"
    by (simp add: ranked_output_def insert_sell_order_def sort_values_def sort_codes_def
        desc_code_def out_row_example_def upt_rec)
  show ?thesis using a b c by blast
qed

section \<open>The output order\<close>

lemma desc_code_less: "desc_code a < desc_code b \<longleftrightarrow> comes_first a b"
  by (cases a; cases b) (auto simp: desc_code_def)

lemma desc_code_eq: "desc_code a = desc_code b \<longleftrightarrow> a = b"
  by (cases a; cases b) (auto simp: desc_code_def)

lemma desc_code_le: "desc_code a \<le> desc_code b \<longleftrightarrow> comes_first a b \<or> a = b"
  using desc_code_less[of a b] desc_code_eq[of a b] by (auto simp: le_less)

lemma sort_codes_le: "sort_codes a \<le> sort_codes b \<longleftrightarrow> in_sell_order a b"
  unfolding sort_codes_def in_sell_order_def
  by (simp add: desc_code_le desc_code_less) blast

text \<open>
  Claim C7. The sorted frame is a rearrangement of the rows in which every row stands
  before every later one in the order: larger score first, equal scores by larger want
  count, then by larger number for sale (a missing value after every number). The
  \<open>Sell Order\<close> column numbers the sorted rows \<open>1, ..., n\<close>.
\<close>

theorem ranked_output_sorted:
  "sorted_wrt in_sell_order (sort_values rows)
   \<and> mset (sort_values rows) = mset rows
   \<and> map snd (ranked_output rows) = sort_values rows
   \<and> map fst (ranked_output rows) = [1 ..< length rows + 1]"
proof -
  have "sorted (map sort_codes (sort_values rows))"
    by (simp add: sort_values_def)
  then have "sorted_wrt (\<lambda>a b. sort_codes a \<le> sort_codes b) (sort_values rows)"
    by (simp add: sorted_wrt_map)
  then have 1: "sorted_wrt in_sell_order (sort_values rows)"
    by (simp add: sort_codes_le)
  have 2: "mset (sort_values rows) = mset rows"
    by (simp add: sort_values_def)
  have 3: "length (sort_values rows) = length rows"
    by (simp add: sort_values_def)
  have 4: "map snd (ranked_output rows) = sort_values rows"
    unfolding ranked_output_def insert_sell_order_def
    by (rule map_snd_zip) (simp del: upt_Suc)
  have 5: "map fst (ranked_output rows) = [1 ..< length rows + 1]"
    unfolding ranked_output_def insert_sell_order_def
    using 3 by (simp del: upt_Suc)
  show ?thesis
    using 1 2 4 5 by blast
qed

lemma ranked_output_example:
  "ranked_output
     [out_row_example 1 (Fin (- 1000000000)) (Fin 900) (Fin 3),
      out_row_example 2 (Fin 4) (Fin 7) NaN,
      out_row_example 3 NaN NaN NaN,
      out_row_example 4 (Fin 4) (Fin 7) (Fin 2),
      out_row_example 5 (Fin 4) (Fin 8) (Fin 1),
      out_row_example 6 PInf (Fin 0) (Fin 0)]
   = [(1, out_row_example 6 PInf (Fin 0) (Fin 0)),
      (2, out_row_example 5 (Fin 4) (Fin 8) (Fin 1)),
      (3, out_row_example 4 (Fin 4) (Fin 7) (Fin 2)),
      (4, out_row_example 2 (Fin 4) (Fin 7) NaN),
      (5, out_row_example 1 (Fin (- 1000000000)) (Fin 900) (Fin 3)),
      (6, out_row_example 3 NaN NaN NaN)]"
  by (simp add: ranked_output_def insert_sell_order_def sort_values_def sort_codes_def
      desc_code_def out_row_example_def upt_rec)

end
